theory Spec2Isabelle
  imports Complex_Main "HOL-Library.AList" "HOL-Library.Sublist"
begin

section \<open>Values, errors and Python helpers\<close>

text \<open>
  The program is \<^verbatim>\<open>fashion-hyperparameter/optimize_class.py\<close>: a \<^verbatim>\<open>FlowRunner\<close> that drives
  an external indexing and search pipeline, an \<^verbatim>\<open>OptimizerCallback\<close> that accumulates
  evaluation values, and an \<^verbatim>\<open>Optimizer\<close> that runs one index and query pass per trial of
  an external hyperparameter search.

  Python objects are records passed explicitly, every exception is a value of type
  \<open>error\<close> on the left of a sum (\<open>LibraryError\<close> is an exception of an external library, and
  \<open>Unmodelled\<close> stands for an outcome that is no exception but a value the model has no
  term for), and a Python \<^verbatim>\<open>dict\<close> is an association list in insertion
  order (\<open>AList.update\<close> keeps the position of a key that is present and appends a new
  one, as assignment to a dict does). Python floats are modelled by \<open>real\<close>: rounding,
  infinities and NaN are outside the model. A path is the list of its components.
\<close>

type_synonym path = "string list"

datatype error =
    FileNotFoundError path
  | NotADirectoryError path
  | IsADirectoryError path
  | FileExistsError path
  | OSError
  | KeyError string
  | TypeError
  | AttributeError
  | IndexError
  | ValueError
  | RuntimeError
  | ZeroDivisionError
  | LibraryError string
  | Unmodelled

text \<open>
  A loaded YAML document. Mapping keys are strings, as in every configuration file the
  program reads; a mapping is a Python dict, so its keys are distinct (\<open>wf_dict\<close>).
\<close>

datatype yaml =
    YNull
  | YBool bool
  | YInt int
  | YFloat real
  | YStr string
  | YSeq "yaml list"
  | YMap "(string \<times> yaml) list"

type_synonym pydict = "(string \<times> yaml) list"

definition wf_dict :: "('k \<times> 'v) list \<Rightarrow> bool" where
  "wf_dict d = distinct (map fst d)"

text \<open>\<^verbatim>\<open>d.get(k, dflt)\<close>\<close>

definition dict_get :: "('k \<times> 'v) list \<Rightarrow> 'k \<Rightarrow> 'v \<Rightarrow> 'v" where
  "dict_get d k dflt = (case map_of d k of None \<Rightarrow> dflt | Some v \<Rightarrow> v)"

text \<open>\<^verbatim>\<open>{**a, **b}\<close>: the items of \<open>a\<close>, then those of \<open>b\<close> assigned in order.\<close>

definition dict_merge :: "('k \<times> 'v) list \<Rightarrow> ('k \<times> 'v) list \<Rightarrow> ('k \<times> 'v) list" where
  "dict_merge a b = foldl (\<lambda>d (k, v). AList.update k v d) a b"

text \<open>\<^verbatim>\<open>s.lstrip(chars)\<close>, \<^verbatim>\<open>sep.join(xs)\<close>, \<^verbatim>\<open>s.split(c)\<close> and \<^verbatim>\<open>str(i)\<close> for an int.\<close>

definition lstrip :: "string \<Rightarrow> string \<Rightarrow> string" where
  "lstrip chars s = dropWhile (\<lambda>c. c \<in> set chars) s"

fun join :: "string \<Rightarrow> string list \<Rightarrow> string" where
  "join sep [] = []"
| "join sep [x] = x"
| "join sep (x # y # ys) = x @ sep @ join sep (y # ys)"

fun split :: "char \<Rightarrow> string \<Rightarrow> string list" where
  "split c [] = [[]]"
| "split c (x # xs) =
     (if x = c then [] # split c xs
      else (case split c xs of
              [] \<Rightarrow> [[x]]
            | w # ws \<Rightarrow> (x # w) # ws))"

fun str_nat :: "nat \<Rightarrow> string" where
  "str_nat n =
     (if n < 10 then [''0123456789'' ! n]
      else str_nat (n div 10) @ [''0123456789'' ! (n mod 10)])"

definition str_int :: "int \<Rightarrow> string" where
  "str_int i = (if i < 0 then CHR ''-'' # str_nat (nat (- i)) else str_nat (nat i))"

text \<open>
  \<^verbatim>\<open>str(v)\<close> for a loaded value. The text of a float and of a container is what the
  interpreter prints for it; it is the parameter \<open>rp\<close>.
\<close>

fun py_str :: "(yaml \<Rightarrow> string) \<Rightarrow> yaml \<Rightarrow> string" where
  "py_str rp (YStr s) = s"
| "py_str rp YNull = ''None''"
| "py_str rp (YBool b) = (if b then ''True'' else ''False'')"
| "py_str rp (YInt i) = str_int i"
| "py_str rp v = rp v"

text \<open>Truthiness of an optional string: \<^verbatim>\<open>None\<close> and \<^verbatim>\<open>''\<close> are false.\<close>

definition py_truthy :: "string option \<Rightarrow> bool" where
  "py_truthy s = (case s of None \<Rightarrow> False | Some t \<Rightarrow> t \<noteq> [])"

text \<open>\<^verbatim>\<open>key in x\<close>, \<^verbatim>\<open>x[key]\<close> and \<^verbatim>\<open>x.items()\<close> for a string key, by the type of \<open>x\<close>.\<close>

fun py_contains :: "yaml \<Rightarrow> string \<Rightarrow> error + bool" where
  "py_contains (YMap items) k = Inr (map_of items k \<noteq> None)"
| "py_contains (YSeq xs) k = Inr (YStr k \<in> set xs)"
| "py_contains (YStr s) k = Inr (sublist k s)"
| "py_contains v k = Inl TypeError"

fun py_getitem :: "yaml \<Rightarrow> string \<Rightarrow> error + yaml" where
  "py_getitem (YMap items) k =
     (case map_of items k of None \<Rightarrow> Inl (KeyError k) | Some v \<Rightarrow> Inr v)"
| "py_getitem v k = Inl TypeError"

fun py_items :: "yaml \<Rightarrow> error + pydict" where
  "py_items (YMap items) = Inr items"
| "py_items v = Inl AttributeError"

section \<open>Paths and the file system\<close>

text \<open>
  \<^verbatim>\<open>pathlib.Path(s)\<close> splits at \<^verbatim>\<open>/\<close> and drops empty and \<^verbatim>\<open>.\<close> components; an absolute
  path starts with the component \<^verbatim>\<open>/\<close>. The empty list is the current directory.
  Components \<^verbatim>\<open>..\<close> and symbolic links are not resolved.
\<close>

definition Path :: "string \<Rightarrow> path" where
  "Path s = (if take 1 s = ''/'' then [''/''] else []) @
            filter (\<lambda>c. c \<noteq> [] \<and> c \<noteq> ''.'') (split CHR ''/'' s)"

definition is_absolute :: "path \<Rightarrow> bool" where
  "is_absolute p = (take 1 p = [''/''])"

text \<open>\<^verbatim>\<open>p / q\<close>, \<^verbatim>\<open>p.name\<close>, \<^verbatim>\<open>p.parent\<close> and \<^verbatim>\<open>str(p)\<close>.\<close>

definition joinpath :: "path \<Rightarrow> path \<Rightarrow> path" where
  "joinpath p q = (if is_absolute q then q else p @ q)"

definition path_name :: "path \<Rightarrow> string" where
  "path_name p = (if p = [] \<or> p = [''/''] then [] else last p)"

definition path_parent :: "path \<Rightarrow> path" where
  "path_parent p = (if p = [] \<or> p = [''/''] then p else butlast p)"

definition path_str :: "path \<Rightarrow> string" where
  "path_str p =
     (if p = [] then ''.''
      else if is_absolute p then ''/'' @ join ''/'' (tl p)
      else join ''/'' p)"

datatype node = Dir | File string

type_synonym filesystem = "(path \<times> node) list"

text \<open>The current directory and the root always exist.\<close>

definition node_at :: "filesystem \<Rightarrow> path \<Rightarrow> node option" where
  "node_at f p = (if p = [] \<or> p = [''/''] then Some Dir else map_of f p)"

definition path_exists :: "filesystem \<Rightarrow> path \<Rightarrow> bool" where
  "path_exists f p = (node_at f p \<noteq> None)"

definition is_file :: "filesystem \<Rightarrow> path \<Rightarrow> bool" where
  "is_file f p = (case node_at f p of Some (File c) \<Rightarrow> True | _ \<Rightarrow> False)"

text \<open>The error of the operating system for a path that does not exist.\<close>

definition missing :: "filesystem \<Rightarrow> path \<Rightarrow> error" where
  "missing f p =
     (if list_ex (is_file f) (prefixes p) then NotADirectoryError p else FileNotFoundError p)"

text \<open>\<open>q\<close> lies strictly below the directory \<open>p\<close>.\<close>

definition below :: "path \<Rightarrow> path \<Rightarrow> bool" where
  "below p q = (strict_prefix p q \<and> (p = [] \<longrightarrow> \<not> is_absolute q))"

definition read_file :: "filesystem \<Rightarrow> path \<Rightarrow> error + string" where
  "read_file f p =
     (case node_at f p of
        None \<Rightarrow> Inl (missing f p)
      | Some Dir \<Rightarrow> Inl (IsADirectoryError p)
      | Some (File c) \<Rightarrow> Inr c)"

text \<open>\<^verbatim>\<open>open(p, 'w')\<close>: the file is created or emptied.\<close>

definition open_w :: "filesystem \<Rightarrow> path \<Rightarrow> error + filesystem" where
  "open_w f p =
     (case node_at f p of
        Some Dir \<Rightarrow> Inl (IsADirectoryError p)
      | Some (File c) \<Rightarrow> Inr (AList.update p (File []) f)
      | None \<Rightarrow>
          (case node_at f (path_parent p) of
             Some Dir \<Rightarrow> Inr (AList.update p (File []) f)
           | _ \<Rightarrow> Inl (missing f p)))"

text \<open>\<^verbatim>\<open>p.mkdir(exist_ok=True)\<close>\<close>

definition mkdir_exist_ok :: "filesystem \<Rightarrow> path \<Rightarrow> error + filesystem" where
  "mkdir_exist_ok f p =
     (case node_at f p of
        Some Dir \<Rightarrow> Inr f
      | Some (File c) \<Rightarrow> Inl (FileExistsError p)
      | None \<Rightarrow>
          (case node_at f (path_parent p) of
             Some Dir \<Rightarrow> Inr (AList.update p Dir f)
           | _ \<Rightarrow> Inl (missing f p)))"

text \<open>
  \<^verbatim>\<open>shutil.rmtree(p)\<close> removes the directory and everything below it. Removing the current
  directory or the root fails.
\<close>

definition rmtree :: "filesystem \<Rightarrow> path \<Rightarrow> error + filesystem" where
  "rmtree f p =
     (if p = [] \<or> p = [''/''] then Inl OSError
      else (case node_at f p of
              None \<Rightarrow> Inl (missing f p)
            | Some (File c) \<Rightarrow> Inl (NotADirectoryError p)
            | Some Dir \<Rightarrow> Inr (filter (\<lambda>(q, n). \<not> prefix p q) f)))"

text \<open>
  \<^verbatim>\<open>os.makedirs(p)\<close> creates \<open>p\<close> and its missing parents, from the top. \<^verbatim>\<open>shutil.copytree(src, dst)\<close>:
  \<open>dst\<close> must not exist; it is created with its missing parents and receives a copy of
  everything that was below \<open>src\<close> before the call. When \<open>dst\<close> lies below \<open>src\<close> in a
  directory of \<open>src\<close> that existed, the copy descends into itself until the operating
  system refuses a path, and the call fails.
\<close>

fun mkdirs :: "filesystem \<Rightarrow> path list \<Rightarrow> error + filesystem" where
  "mkdirs f [] = Inr f"
| "mkdirs f (q # qs) =
     (if path_exists f q then mkdirs f qs
      else (case node_at f (path_parent q) of
              Some Dir \<Rightarrow> mkdirs (AList.update q Dir f) qs
            | other \<Rightarrow> Inl (missing f q)))"

definition makedirs :: "filesystem \<Rightarrow> path \<Rightarrow> error + filesystem" where
  "makedirs f p =
     (if path_exists f p then Inl (FileExistsError p) else mkdirs f (prefixes p))"

definition copytree :: "filesystem \<Rightarrow> path \<Rightarrow> path \<Rightarrow> error + filesystem" where
  "copytree f src dst =
     (case node_at f src of
        None \<Rightarrow> Inl (missing f src)
      | Some (File c) \<Rightarrow> Inl (NotADirectoryError src)
      | Some Dir \<Rightarrow>
          (case makedirs f dst of
             Inl e \<Rightarrow> Inl e
           | Inr g \<Rightarrow>
               if below src dst \<and> path_exists f (take (Suc (length src)) dst)
               then Inl OSError
               else Inr (foldl (\<lambda>h (q, n). AList.update (dst @ drop (length src) q) n h) g
                               (filter (\<lambda>(q, n). below src q) f))))"

text \<open>\<^verbatim>\<open>p.glob('*.yml')\<close>: the entries directly in \<open>p\<close> whose name ends in \<^verbatim>\<open>.yml\<close>.\<close>

definition glob_yml :: "filesystem \<Rightarrow> path \<Rightarrow> path list" where
  "glob_yml f p =
     (if node_at f p = Some Dir
      then map fst (filter (\<lambda>(q, n). below p q \<and> butlast q = p \<and> suffix ''.yml'' (last q)) f)
      else [])"

section \<open>The process state and the external libraries\<close>

datatype evaluation = Evaluation (eval_op_name: string) (eval_value: real)

datatype doc = Doc (evaluations: "evaluation list")

text \<open>A search response; \<open>docs\<close> is \<^verbatim>\<open>response.search.docs\<close>.\<close>

datatype response = Response (docs: "doc list")

text \<open>
  \<open>flow_calls\<close> is a trace of the runs of the external pipeline, in order. It is not a
  variable of the program: it records which flows were started and with what.
\<close>

datatype flow_call =
    IndexCall path "string list" int
  | SearchCall path "string list" int

record world =
  fs :: filesystem
  environ :: "(string \<times> string) list"
  flow_calls :: "flow_call list"

text \<open>
  What the program calls and does not define: the YAML parser and printer of
  \<^verbatim>\<open>ruamel.yaml\<close> (by loader type), the text of a float or container, and the indexing and
  search runs of the pipeline (\<^verbatim>\<open>Flow().load_config(y)\<close> entered and \<^verbatim>\<open>f.index\<close> or
  \<^verbatim>\<open>f.search\<close> called with the documents and the batch size). A search run returns the
  responses it passes to the callback.
\<close>

record externals =
  yaml_load :: "string \<Rightarrow> string \<Rightarrow> error + yaml"
  yaml_dump :: "yaml \<Rightarrow> error + string"
  repr :: "yaml \<Rightarrow> string"
  flow_index :: "path \<Rightarrow> string list \<Rightarrow> int \<Rightarrow> world \<Rightarrow> error + world"
  flow_search :: "path \<Rightarrow> string list \<Rightarrow> int \<Rightarrow> world \<Rightarrow> error + (response list \<times> world)"

text \<open>
  An \<^verbatim>\<open>optuna\<close> trial: \<open>trial m param kwargs\<close> is \<^verbatim>\<open>getattr(trial, m)(param, **kwargs)\<close>.
\<close>

type_synonym trial = "string \<Rightarrow> string \<Rightarrow> pydict \<Rightarrow> error + yaml"

text \<open>
  The search library: the trial it hands to the objective given the direction, the seed
  and the values returned so far, and \<^verbatim>\<open>study.best_trial.params\<close> for them.
\<close>

record optuna =
  ask :: "string \<Rightarrow> int \<Rightarrow> real list \<Rightarrow> trial"
  best_params :: "string \<Rightarrow> int \<Rightarrow> real list \<Rightarrow> error + pydict"

record study =
  best_trial :: "error + pydict"
  trials :: "real list"

text \<open>\<^verbatim>\<open>yaml.load(path)\<close> and \<^verbatim>\<open>yaml.dump(v, open(path, 'w'))\<close>\<close>

definition load_yaml :: "externals \<Rightarrow> string \<Rightarrow> filesystem \<Rightarrow> path \<Rightarrow> error + yaml" where
  "load_yaml ext typ f p =
     (case read_file f p of
        Inl e \<Rightarrow> Inl e
      | Inr text \<Rightarrow> yaml_load ext typ text)"

definition dump_yaml :: "externals \<Rightarrow> yaml \<Rightarrow> filesystem \<Rightarrow> path \<Rightarrow> error + filesystem" where
  "dump_yaml ext v f p =
     (case open_w f p of
        Inl e \<Rightarrow> Inl e
      | Inr g \<Rightarrow>
          (case yaml_dump ext v of
             Inl e \<Rightarrow> Inl e
           | Inr text \<Rightarrow> Inr (AList.update p (File text) g)))"

text \<open>
  \<^verbatim>\<open>os.environ[k] = v\<close>: a name that is empty or contains \<^verbatim>\<open>=\<close>, and a null character in
  either string, are refused.
\<close>

definition putenv :: "(string \<times> string) list \<Rightarrow> string \<Rightarrow> string \<Rightarrow> error + (string \<times> string) list" where
  "putenv env k v =
     (if k = [] \<or> CHR ''='' \<in> set k \<or> CHR 0x00 \<in> set k \<or> CHR 0x00 \<in> set v
      then Inl ValueError
      else Inr (AList.update k v env))"

section \<open>FlowRunner\<close>

text \<open>\<open>env_parameters\<close> is \<open>None\<close> until \<^verbatim>\<open>_load_env\<close> sets the attribute.\<close>

record FlowRunner =
  index_document_generator :: "string list"
  query_document_generator :: "string list"
  index_batch_size :: int
  query_batch_size :: int
  env_yaml :: "string option"
  workspace_env :: string
  overwrite_workspace :: bool
  env_parameters :: "yaml option"

definition FlowRunner_init ::
  "string list \<Rightarrow> string list \<Rightarrow> int \<Rightarrow> int \<Rightarrow> string option \<Rightarrow> string \<Rightarrow> bool \<Rightarrow> FlowRunner" where
  "FlowRunner_init idg qdg ibs qbs ey we ow =
     \<lparr>index_document_generator = idg, query_document_generator = qdg,
      index_batch_size = ibs, query_batch_size = qbs,
      env_yaml = ey, workspace_env = we, overwrite_workspace = ow,
      env_parameters = None\<rparr>"

definition clean_workdir :: "filesystem \<Rightarrow> path \<Rightarrow> error + filesystem" where
  "clean_workdir f workspace =
     (if path_exists f workspace then rmtree f workspace else Inr f)"

text \<open>The loop of \<^verbatim>\<open>_load_env\<close> over the loaded items.\<close>

fun set_environ ::
  "(yaml \<Rightarrow> string) \<Rightarrow> pydict \<Rightarrow> (string \<times> string) list \<Rightarrow> error + (string \<times> string) list" where
  "set_environ rp [] env = Inr env"
| "set_environ rp ((environment_variable, v) # rest) env =
     (case putenv env environment_variable (py_str rp v) of
        Inl e \<Rightarrow> Inl e
      | Inr env' \<Rightarrow> set_environ rp rest env')"

definition load_env :: "externals \<Rightarrow> FlowRunner \<Rightarrow> world \<Rightarrow> error + (FlowRunner \<times> world)" where
  "load_env ext self w =
     (if py_truthy (env_yaml self) then
        (case load_yaml ext ''safe'' (fs w) (Path (the (env_yaml self))) of
           Inl e \<Rightarrow> Inl e
         | Inr params \<Rightarrow>
             (case py_items params of
                Inl e \<Rightarrow> Inl e
              | Inr items \<Rightarrow>
                  (case set_environ (repr ext) items (environ w) of
                     Inl e \<Rightarrow> Inl e
                   | Inr env' \<Rightarrow>
                       Inr (self\<lparr>env_parameters := Some params\<rparr>, w\<lparr>environ := env'\<rparr>))))
      else Inr (self, w))"

text \<open>\<^verbatim>\<open>Path(os.environ.get(self.workspace_env, workspace))\<close>; \<^verbatim>\<open>Path(None)\<close> is a TypeError.\<close>

definition workspace_path :: "FlowRunner \<Rightarrow> world \<Rightarrow> path option \<Rightarrow> error + path" where
  "workspace_path self w workspace =
     (case map_of (environ w) (workspace_env self) of
        Some v \<Rightarrow> Inr (Path v)
      | None \<Rightarrow> (case workspace of None \<Rightarrow> Inl TypeError | Some p \<Rightarrow> Inr p))"

text \<open>
  The last lines of \<^verbatim>\<open>run_indexing\<close>: \<^verbatim>\<open>tee\<close> leaves the runner with the same
  documents, and the indexing flow runs on them.
\<close>

definition index_flow :: "externals \<Rightarrow> FlowRunner \<Rightarrow> world \<Rightarrow> path \<Rightarrow> error + (FlowRunner \<times> world)" where
  "index_flow ext self w index_yaml =
     (case flow_index ext index_yaml (index_document_generator self) (index_batch_size self) w of
        Inl e \<Rightarrow> Inl e
      | Inr w' \<Rightarrow>
          Inr (self, w'\<lparr>flow_calls := flow_calls w @
                 [IndexCall index_yaml (index_document_generator self) (index_batch_size self)]\<rparr>))"

text \<open>
  \<^verbatim>\<open>run_indexing\<close> from the test \<^verbatim>\<open>workspace.exists()\<close> on, for the workspace it has
  resolved.
\<close>

definition index_workspace ::
  "externals \<Rightarrow> FlowRunner \<Rightarrow> world \<Rightarrow> path \<Rightarrow> path \<Rightarrow> error + (FlowRunner \<times> world)" where
  "index_workspace ext self w index_yaml workspace =
     (if path_exists (fs w) workspace then
        (if overwrite_workspace self then
           (case clean_workdir (fs w) workspace of
              Inl e \<Rightarrow> Inl e
            | Inr f \<Rightarrow> index_flow ext self (w\<lparr>fs := f\<rparr>) index_yaml)
         else Inr (self, w))
      else index_flow ext self w index_yaml)"

definition run_indexing ::
  "externals \<Rightarrow> FlowRunner \<Rightarrow> world \<Rightarrow> path \<Rightarrow> path option \<Rightarrow> error + (FlowRunner \<times> world)" where
  "run_indexing ext self w index_yaml workspace =
     (case load_env ext self w of
        Inl e \<Rightarrow> Inl e
      | Inr (self1, w1) \<Rightarrow>
          (case workspace_path self1 w1 workspace of
             Inl e \<Rightarrow> Inl e
           | Inr ws \<Rightarrow> index_workspace ext self1 w1 index_yaml ws))"

text \<open>The callback is a function on its own state; it is applied to every response.\<close>

definition run_querying ::
  "externals \<Rightarrow> FlowRunner \<Rightarrow> world \<Rightarrow> path \<Rightarrow> ('c \<Rightarrow> response \<Rightarrow> 'c) \<Rightarrow> 'c \<Rightarrow>
     error + (FlowRunner \<times> world \<times> 'c)" where
  "run_querying ext self w query_yaml callback c =
     (case load_env ext self w of
        Inl e \<Rightarrow> Inl e
      | Inr (self1, w1) \<Rightarrow>
          (case flow_search ext query_yaml (query_document_generator self1)
                  (query_batch_size self1) w1 of
             Inl e \<Rightarrow> Inl e
           | Inr (responses, w2) \<Rightarrow>
               Inr (self1,
                    w2\<lparr>flow_calls := flow_calls w1 @
                         [SearchCall query_yaml (query_document_generator self1)
                            (query_batch_size self1)]\<rparr>,
                    foldl callback c responses)))"

definition run_evaluation ::
  "externals \<Rightarrow> FlowRunner \<Rightarrow> world \<Rightarrow> path \<Rightarrow> path \<Rightarrow> path option \<Rightarrow>
     ('c \<Rightarrow> response \<Rightarrow> 'c) \<Rightarrow> 'c \<Rightarrow> error + (FlowRunner \<times> world \<times> 'c)" where
  "run_evaluation ext self w index_yaml query_yaml workspace evaluation_callback c =
     (case load_env ext self w of
        Inl e \<Rightarrow> Inl e
      | Inr (self1, w1) \<Rightarrow>
          (case run_indexing ext self1 w1 index_yaml workspace of
             Inl e \<Rightarrow> Inl e
           | Inr (self2, w2) \<Rightarrow> run_querying ext self2 w2 query_yaml evaluation_callback c))"

section \<open>OptimizerCallback\<close>

record OptimizerCallback =
  op_name :: "string option"
  evaluation_values :: "(string \<times> real) list"
  n_docs :: int

text \<open>The value of \<^verbatim>\<open>get_mean_evaluation\<close>: a float, or a dict from metric to float.\<close>

datatype mean_evaluation = Scalar real | PerMetric "(string \<times> real) list"

definition OptimizerCallback_init :: "string option \<Rightarrow> OptimizerCallback" where
  "OptimizerCallback_init opn = \<lparr>op_name = opn, evaluation_values = [], n_docs = 0\<rparr>"

text \<open>\<^verbatim>\<open>val / n\<close> for a float and an int.\<close>

definition truediv :: "real \<Rightarrow> int \<Rightarrow> error + real" where
  "truediv a n = (if n = 0 then Inl ZeroDivisionError else Inr (a / real_of_int n))"

text \<open>The dict comprehension of \<^verbatim>\<open>get_mean_evaluation\<close>, item by item.\<close>

fun mean_items ::
  "int \<Rightarrow> (string \<times> real) list \<Rightarrow> (string \<times> real) list \<Rightarrow> error + (string \<times> real) list" where
  "mean_items n [] acc = Inr acc"
| "mean_items n ((metric, val) # rest) acc =
     (case truediv val n of
        Inl e \<Rightarrow> Inl e
      | Inr q \<Rightarrow> mean_items n rest (AList.update metric q acc))"

definition get_mean_evaluation :: "OptimizerCallback \<Rightarrow> error + mean_evaluation" where
  "get_mean_evaluation self =
     (if py_truthy (op_name self) then
        (case map_of (evaluation_values self) (the (op_name self)) of
           None \<Rightarrow> Inl (KeyError (the (op_name self)))
         | Some v \<Rightarrow>
             (case truediv v (n_docs self) of
                Inl e \<Rightarrow> Inl e
              | Inr q \<Rightarrow> Inr (Scalar q)))
      else
        (case mean_items (n_docs self) (evaluation_values self) [] of
           Inl e \<Rightarrow> Inl e
         | Inr d \<Rightarrow> Inr (PerMetric d)))"

text \<open>The body of the inner loop of \<^verbatim>\<open>process_result\<close>.\<close>

definition add_evaluation :: "(string \<times> real) list \<Rightarrow> evaluation \<Rightarrow> (string \<times> real) list" where
  "add_evaluation vals ev =
     AList.update (eval_op_name ev) (dict_get vals (eval_op_name ev) 0 + eval_value ev) vals"

definition process_result :: "OptimizerCallback \<Rightarrow> response \<Rightarrow> OptimizerCallback" where
  "process_result self resp =
     self\<lparr>n_docs := n_docs self + int (length (docs resp)),
          evaluation_values :=
            foldl (\<lambda>vals d. foldl add_evaluation vals (evaluations d))
                  (evaluation_values self) (docs resp)\<rparr>"

section \<open>Optimizer\<close>

text \<open>
  The optimizer holds its flow runner and its callback; both are objects that its methods
  change, so they are fields that the methods return updated. \<open>trial_workspace_env\<close> is
  the attribute \<^verbatim>\<open>workspace_env\<close> of the optimizer.
\<close>

record Optimizer =
  flow_runner :: FlowRunner
  pod_dir :: path
  index_yaml :: path
  query_yaml :: path
  parameter_yaml :: string
  callback :: OptimizerCallback
  best_config_filepath :: path
  overwrite_trial_workspace :: bool
  trial_workspace_env :: string

definition Optimizer_init ::
  "FlowRunner \<Rightarrow> string \<Rightarrow> string \<Rightarrow> string \<Rightarrow> string \<Rightarrow> OptimizerCallback \<Rightarrow> string \<Rightarrow> bool \<Rightarrow>
     string \<Rightarrow> Optimizer" where
  "Optimizer_init fr pd iy qy py cb bc ow we =
     \<lparr>flow_runner = fr, pod_dir = Path pd, index_yaml = Path iy, query_yaml = Path qy,
      parameter_yaml = py, callback = cb, best_config_filepath = Path bc,
      overwrite_trial_workspace = ow, trial_workspace_env = lstrip ''$'' we\<rparr>"

text \<open>The loop of \<^verbatim>\<open>_trial_parameter_sampler\<close> over the items of the parameter file.\<close>

fun sample_parameters :: "trial \<Rightarrow> pydict \<Rightarrow> pydict \<Rightarrow> error + pydict" where
  "sample_parameters trial [] trial_parameters = Inr trial_parameters"
| "sample_parameters trial ((param, param_values) # rest) trial_parameters =
     (case py_getitem param_values ''type'' of
        Inl e \<Rightarrow> Inl e
      | Inr (YStr ty) \<Rightarrow>
          (case py_items param_values of
             Inl e \<Rightarrow> Inl e
           | Inr kwargs \<Rightarrow>
               (case trial (''suggest_'' @ ty) param (AList.delete ''type'' kwargs) of
                  Inl e \<Rightarrow> Inl e
                | Inr v \<Rightarrow> sample_parameters trial rest (AList.update param v trial_parameters)))
      | Inr other \<Rightarrow> Inl TypeError)"

text \<open>The result is the pair of \<^verbatim>\<open>trial_parameters\<close> and \<^verbatim>\<open>trial.workspace\<close>.\<close>

definition trial_parameter_sampler ::
  "externals \<Rightarrow> Optimizer \<Rightarrow> world \<Rightarrow> trial \<Rightarrow> error + (pydict \<times> path)" where
  "trial_parameter_sampler ext self w trial =
     (case load_yaml ext ''safe'' (fs w) (Path (parameter_yaml self)) of
        Inl e \<Rightarrow> Inl e
      | Inr parameters \<Rightarrow>
          (case py_items parameters of
             Inl e \<Rightarrow> Inl e
           | Inr items \<Rightarrow>
               (case sample_parameters trial items [] of
                  Inl e \<Rightarrow> Inl e
                | Inr trial_parameters \<Rightarrow>
                    (let trial_workspace =
                           Path (''JINA_WORKSPACE_'' @
                                 join ''_'' (map (\<lambda>(k, v). py_str (repr ext) v) trial_parameters))
                     in Inr (AList.update (trial_workspace_env self)
                               (YStr (path_str trial_workspace)) trial_parameters,
                             trial_workspace)))))"

text \<open>
  \<^verbatim>\<open>_replace_param\<close>. \<open>replace_items\<close> is the inner loop over \<^verbatim>\<open>parameters[section].items()\<close>,
  assigning into the section while it is read; \<open>replace_section\<close> is the body of the outer
  loop for one section name. A document is a tree: two sections that are one object
  through a YAML alias are outside the model.
\<close>

fun replace_items :: "(yaml \<Rightarrow> string) \<Rightarrow> pydict \<Rightarrow> pydict \<Rightarrow> pydict \<Rightarrow> pydict" where
  "replace_items rp trial_parameters [] sec = sec"
| "replace_items rp trial_parameters ((param, val) # rest) sec =
     (case map_of trial_parameters (lstrip ''$'' (py_str rp val)) of
        Some t \<Rightarrow> replace_items rp trial_parameters rest (AList.update param t sec)
      | None \<Rightarrow> replace_items rp trial_parameters rest sec)"

definition replace_section :: "(yaml \<Rightarrow> string) \<Rightarrow> pydict \<Rightarrow> string \<Rightarrow> yaml \<Rightarrow> error + yaml" where
  "replace_section rp trial_parameters section parameters =
     (case py_contains parameters section of
        Inl e \<Rightarrow> Inl e
      | Inr False \<Rightarrow> Inr parameters
      | Inr True \<Rightarrow>
          (case py_getitem parameters section of
             Inl e \<Rightarrow> Inl e
           | Inr sec \<Rightarrow>
               (case py_items sec of
                  Inl e \<Rightarrow> Inl e
                | Inr items \<Rightarrow>
                    (case parameters of
                       YMap entries \<Rightarrow>
                         Inr (YMap (AList.update section
                                      (YMap (replace_items rp trial_parameters items items)) entries))
                     | other \<Rightarrow> Inl TypeError))))"

fun replace_sections :: "(yaml \<Rightarrow> string) \<Rightarrow> pydict \<Rightarrow> string list \<Rightarrow> yaml \<Rightarrow> error + yaml" where
  "replace_sections rp trial_parameters [] parameters = Inr parameters"
| "replace_sections rp trial_parameters (section # rest) parameters =
     (case replace_section rp trial_parameters section parameters of
        Inl e \<Rightarrow> Inl e
      | Inr parameters' \<Rightarrow> replace_sections rp trial_parameters rest parameters')"

definition replace_param :: "(yaml \<Rightarrow> string) \<Rightarrow> yaml \<Rightarrow> pydict \<Rightarrow> error + yaml" where
  "replace_param rp parameters trial_parameters =
     replace_sections rp trial_parameters [''with'', ''metas''] parameters"

text \<open>
  The loop of \<^verbatim>\<open>_create_trial_pods\<close> over \<^verbatim>\<open>enumerate(parameters['components'])\<close> for a
  list, and the lines of its body between loading a file and writing it. A mapping under
  \<^verbatim>\<open>components\<close> is iterated by key, and the first assignment adds the key \<^verbatim>\<open>0\<close> to it:
  with more keys to come the iteration fails, and with one key the loop ends and leaves a
  mapping with an integer key, which is outside the model. A string has no item
  assignment, and any other value is not iterable.
\<close>

fun replace_each :: "(yaml \<Rightarrow> string) \<Rightarrow> pydict \<Rightarrow> yaml list \<Rightarrow> error + yaml list" where
  "replace_each rp trial_parameters [] = Inr []"
| "replace_each rp trial_parameters (component # rest) =
     (case replace_param rp component trial_parameters of
        Inl e \<Rightarrow> Inl e
      | Inr component' \<Rightarrow>
          (case replace_each rp trial_parameters rest of
             Inl e \<Rightarrow> Inl e
           | Inr rest' \<Rightarrow> Inr (component' # rest')))"

definition replace_components :: "(yaml \<Rightarrow> string) \<Rightarrow> pydict \<Rightarrow> yaml \<Rightarrow> error + yaml" where
  "replace_components rp trial_parameters parameters =
     (case py_contains parameters ''components'' of
        Inl e \<Rightarrow> Inl e
      | Inr False \<Rightarrow> Inr parameters
      | Inr True \<Rightarrow>
          (case py_getitem parameters ''components'' of
             Inl e \<Rightarrow> Inl e
           | Inr (YSeq components) \<Rightarrow>
               (case replace_each rp trial_parameters components of
                  Inl e \<Rightarrow> Inl e
                | Inr components' \<Rightarrow>
                    (case parameters of
                       YMap entries \<Rightarrow> Inr (YMap (AList.update ''components'' (YSeq components') entries))
                     | other \<Rightarrow> Inl TypeError))
           | Inr (YMap []) \<Rightarrow> Inr parameters
           | Inr (YMap ((k, v) # rest)) \<Rightarrow>
               (case replace_param rp (YStr k) trial_parameters of
                  Inl e \<Rightarrow> Inl e
                | Inr component' \<Rightarrow> if rest = [] then Inl Unmodelled else Inl RuntimeError)
           | Inr (YStr []) \<Rightarrow> Inr parameters
           | Inr (YStr (c # cs)) \<Rightarrow>
               (case replace_param rp (YStr [c]) trial_parameters of
                  Inl e \<Rightarrow> Inl e
                | Inr component' \<Rightarrow> Inl TypeError)
           | Inr other \<Rightarrow> Inl TypeError))"

definition pod_parameters :: "(yaml \<Rightarrow> string) \<Rightarrow> pydict \<Rightarrow> yaml \<Rightarrow> error + yaml" where
  "pod_parameters rp trial_parameters parameters =
     (case replace_components rp trial_parameters parameters of
        Inl e \<Rightarrow> Inl e
      | Inr parameters' \<Rightarrow> replace_param rp parameters' trial_parameters)"

text \<open>The loop of \<^verbatim>\<open>_create_trial_pods\<close> over the template files.\<close>

fun create_pod_files ::
  "externals \<Rightarrow> pydict \<Rightarrow> path \<Rightarrow> path list \<Rightarrow> filesystem \<Rightarrow> error + filesystem" where
  "create_pod_files ext trial_parameters trial_pod_dir [] f = Inr f"
| "create_pod_files ext trial_parameters trial_pod_dir (file_path # rest) f =
     (case load_yaml ext ''rt'' f file_path of
        Inl e \<Rightarrow> Inl e
      | Inr parameters \<Rightarrow>
          (case pod_parameters (repr ext) trial_parameters parameters of
             Inl e \<Rightarrow> Inl e
           | Inr parameters' \<Rightarrow>
               (case dump_yaml ext parameters' f
                       (joinpath trial_pod_dir (Path (path_name file_path))) of
                  Inl e \<Rightarrow> Inl e
                | Inr f' \<Rightarrow> create_pod_files ext trial_parameters trial_pod_dir rest f')))"

definition create_trial_pods ::
  "externals \<Rightarrow> Optimizer \<Rightarrow> world \<Rightarrow> path \<Rightarrow> pydict \<Rightarrow> error + world" where
  "create_trial_pods ext self w trial_dir trial_parameters =
     (let trial_pod_dir = joinpath trial_dir [''pods''] in
      case copytree (fs w) (pod_dir self) trial_pod_dir of
        Inl e \<Rightarrow> Inl e
      | Inr f \<Rightarrow>
          (case create_pod_files ext trial_parameters trial_pod_dir
                  (glob_yml f (pod_dir self)) f of
             Inl e \<Rightarrow> Inl e
           | Inr f' \<Rightarrow> Inr (w\<lparr>fs := f'\<rparr>)))"

text \<open>
  \<^verbatim>\<open>_create_trial_flows\<close>: \<open>rewrite_uses\<close> is the loop over the keys of one pod,
  \<open>rewrite_pods\<close> the loop over the pods of a flow file, \<open>create_flow_files\<close> the loop over
  the two flow files.
\<close>

fun rewrite_uses :: "path \<Rightarrow> path \<Rightarrow> pydict \<Rightarrow> pydict \<Rightarrow> error + pydict" where
  "rewrite_uses trial_dir pd [] val = Inr val"
| "rewrite_uses trial_dir pd ((pod_param, x) # rest) val =
     (if prefix ''uses'' pod_param then
        (case x of
           YStr s \<Rightarrow>
             rewrite_uses trial_dir pd rest
               (AList.update pod_param
                  (YStr (path_str (joinpath (joinpath trial_dir pd) (Path (path_name (Path s))))))
                  val)
         | other \<Rightarrow> Inl TypeError)
      else rewrite_uses trial_dir pd rest val)"

fun rewrite_pods :: "path \<Rightarrow> path \<Rightarrow> pydict \<Rightarrow> pydict \<Rightarrow> error + pydict" where
  "rewrite_pods trial_dir pd [] pods = Inr pods"
| "rewrite_pods trial_dir pd ((pod, val) # rest) pods =
     (case py_items val of
        Inl e \<Rightarrow> Inl e
      | Inr items \<Rightarrow>
          (case rewrite_uses trial_dir pd items items of
             Inl e \<Rightarrow> Inl e
           | Inr val' \<Rightarrow> rewrite_pods trial_dir pd rest (AList.update pod (YMap val') pods)))"

definition flow_parameters :: "path \<Rightarrow> path \<Rightarrow> yaml \<Rightarrow> error + yaml" where
  "flow_parameters trial_dir pd parameters =
     (case py_getitem parameters ''pods'' of
        Inl e \<Rightarrow> Inl e
      | Inr pods \<Rightarrow>
          (case py_items pods of
             Inl e \<Rightarrow> Inl e
           | Inr items \<Rightarrow>
               (case rewrite_pods trial_dir pd items items of
                  Inl e \<Rightarrow> Inl e
                | Inr pods' \<Rightarrow>
                    (case parameters of
                       YMap entries \<Rightarrow> Inr (YMap (AList.update ''pods'' (YMap pods') entries))
                     | other \<Rightarrow> Inl TypeError))))"

fun create_flow_files ::
  "externals \<Rightarrow> path \<Rightarrow> path \<Rightarrow> path \<Rightarrow> path list \<Rightarrow> filesystem \<Rightarrow> error + filesystem" where
  "create_flow_files ext trial_dir pd trial_flow_dir [] f = Inr f"
| "create_flow_files ext trial_dir pd trial_flow_dir (file_path # rest) f =
     (case load_yaml ext ''rt'' f file_path of
        Inl e \<Rightarrow> Inl e
      | Inr parameters \<Rightarrow>
          (case flow_parameters trial_dir pd parameters of
             Inl e \<Rightarrow> Inl e
           | Inr parameters' \<Rightarrow>
               (case dump_yaml ext parameters' f
                       (joinpath trial_flow_dir (Path (path_name file_path))) of
                  Inl e \<Rightarrow> Inl e
                | Inr f' \<Rightarrow> create_flow_files ext trial_dir pd trial_flow_dir rest f')))"

definition create_trial_flows :: "externals \<Rightarrow> Optimizer \<Rightarrow> world \<Rightarrow> path \<Rightarrow> error + world" where
  "create_trial_flows ext self w trial_dir =
     (let trial_flow_dir = joinpath trial_dir [''flows''] in
      case mkdir_exist_ok (fs w) trial_flow_dir of
        Inl e \<Rightarrow> Inl e
      | Inr f \<Rightarrow>
          (case create_flow_files ext trial_dir (pod_dir self) trial_flow_dir
                  [index_yaml self, query_yaml self] f of
             Inl e \<Rightarrow> Inl e
           | Inr f' \<Rightarrow> Inr (w\<lparr>fs := f'\<rparr>)))"

text \<open>
  The last lines of \<^verbatim>\<open>_objective\<close>: the first key of the means and its value. A float has
  no keys, and an empty dict has no first key.
\<close>

definition first_mean :: "mean_evaluation \<Rightarrow> error + real" where
  "first_mean mean_values =
     (case mean_values of
        Scalar x \<Rightarrow> Inl TypeError
      | PerMetric [] \<Rightarrow> Inl IndexError
      | PerMetric ((opn, mean_eval) # rest) \<Rightarrow> Inr mean_eval)"

definition objective ::
  "externals \<Rightarrow> Optimizer \<Rightarrow> world \<Rightarrow> trial \<Rightarrow> error + (real \<times> Optimizer \<times> world)" where
  "objective ext self w trial =
     (case trial_parameter_sampler ext self w trial of
        Inl e \<Rightarrow> Inl e
      | Inr (trial_parameters, trial_workspace) \<Rightarrow>
          (let trial_index_workspace = joinpath trial_workspace [''index''];
               trial_index_yaml =
                 joinpath (joinpath trial_workspace [''flows'']) (Path (path_name (index_yaml self)));
               trial_query_yaml =
                 joinpath (joinpath trial_workspace [''flows'']) (Path (path_name (query_yaml self)))
           in
           case (if overwrite_trial_workspace self
                 then clean_workdir (fs w) trial_workspace else Inr (fs w)) of
             Inl e \<Rightarrow> Inl e
           | Inr f \<Rightarrow>
               (case create_trial_pods ext self (w\<lparr>fs := f\<rparr>) trial_workspace trial_parameters of
                  Inl e \<Rightarrow> Inl e
                | Inr w1 \<Rightarrow>
                    (case create_trial_flows ext self w1 trial_workspace of
                       Inl e \<Rightarrow> Inl e
                     | Inr w2 \<Rightarrow>
                         (case run_evaluation ext (flow_runner self) w2 trial_index_yaml
                                 trial_query_yaml (Some trial_index_workspace)
                                 process_result (callback self) of
                            Inl e \<Rightarrow> Inl e
                          | Inr (runner', w3, callback') \<Rightarrow>
                              (case get_mean_evaluation callback' of
                                 Inl e \<Rightarrow> Inl e
                               | Inr mean_values \<Rightarrow>
                                   (case first_mean mean_values of
                                      Inl e \<Rightarrow> Inl e
                                    | Inr mean_eval \<Rightarrow>
                                        Inr (mean_eval,
                                             self\<lparr>flow_runner := runner', callback := callback'\<rparr>,
                                             w3))))))))"

definition export_params :: "externals \<Rightarrow> Optimizer \<Rightarrow> world \<Rightarrow> study \<Rightarrow> error + world" where
  "export_params ext self w st =
     (case mkdir_exist_ok (fs w) (path_parent (best_config_filepath self)) of
        Inl e \<Rightarrow> Inl e
      | Inr f \<Rightarrow>
          (case env_parameters (flow_runner self) of
             None \<Rightarrow> Inl AttributeError
           | Some (YMap env) \<Rightarrow>
               (case best_trial st of
                  Inl e \<Rightarrow> Inl e
                | Inr params \<Rightarrow>
                    (case dump_yaml ext (YMap (dict_merge env params)) f
                            (best_config_filepath self) of
                       Inl e \<Rightarrow> Inl e
                     | Inr f' \<Rightarrow> Inr (w\<lparr>fs := f'\<rparr>)))
           | Some other \<Rightarrow> Inl TypeError))"

text \<open>
  \<^verbatim>\<open>study.optimize(self._objective, n_trials)\<close> calls the objective once per trial, one
  after the other, and with the library's default of catching nothing it stops at the
  first exception, which it raises again; then the best parameters are written.
\<close>

fun run_trials ::
  "externals \<Rightarrow> optuna \<Rightarrow> string \<Rightarrow> int \<Rightarrow> nat \<Rightarrow> Optimizer \<Rightarrow> world \<Rightarrow> real list \<Rightarrow>
     error + (real list \<times> Optimizer \<times> world)" where
  "run_trials ext lib direction seed 0 self w vals = Inr (vals, self, w)"
| "run_trials ext lib direction seed (Suc n) self w vals =
     (case objective ext self w (ask lib direction seed vals) of
        Inl e \<Rightarrow> Inl e
      | Inr (mean_eval, self', w') \<Rightarrow>
          run_trials ext lib direction seed n self' w' (vals @ [mean_eval]))"

definition optimize_flow ::
  "externals \<Rightarrow> optuna \<Rightarrow> Optimizer \<Rightarrow> world \<Rightarrow> nat \<Rightarrow> string \<Rightarrow> int \<Rightarrow>
     error + (Optimizer \<times> world)" where
  "optimize_flow ext lib self w n_trials direction seed =
     (case run_trials ext lib direction seed n_trials self w [] of
        Inl e \<Rightarrow> Inl e
      | Inr (vals, self', w') \<Rightarrow>
          (case export_params ext self' w'
                  \<lparr>best_trial = best_params lib direction seed vals, trials = vals\<rparr> of
             Inl e \<Rightarrow> Inl e
           | Inr w'' \<Rightarrow> Inr (self', w'')))"

section \<open>Notions of the specification\<close>

text \<open>
  The documents recorded from a list of responses, the values one document carries for a
  metric, the sum of all recorded values of a metric, and a response whose evaluation
  values are all non-negative.
\<close>

definition recorded_docs :: "response list \<Rightarrow> doc list" where
  "recorded_docs rs = concat (map docs rs)"

definition metric_values :: "string \<Rightarrow> doc \<Rightarrow> real list" where
  "metric_values m d = map eval_value (filter (\<lambda>e. eval_op_name e = m) (evaluations d))"

definition metric_total :: "string \<Rightarrow> response list \<Rightarrow> real" where
  "metric_total m rs = sum_list (concat (map (metric_values m) (recorded_docs rs)))"

definition nonneg_response :: "response \<Rightarrow> bool" where
  "nonneg_response r = list_all (\<lambda>d. list_all (\<lambda>e. 0 \<le> eval_value e) (evaluations d)) (docs r)"

text \<open>
  Substitution as the amended claim C2 has it. \<open>substitute\<close> is the new value of one
  entry: the sampled value whose name is the text of the entry without its leading
  \<^verbatim>\<open>$\<close> characters, or the entry itself. \<open>substitute_section\<close> applies it to the entries of
  one section, \<open>substitute_sections\<close> to the sections \<^verbatim>\<open>with\<close> and \<^verbatim>\<open>metas\<close> of a mapping,
  and \<open>substitute_file\<close> to every item of the list under \<^verbatim>\<open>components\<close> and then to the
  document itself.
\<close>

definition substitute :: "(yaml \<Rightarrow> string) \<Rightarrow> pydict \<Rightarrow> yaml \<Rightarrow> yaml" where
  "substitute rp trial_parameters val =
     (case map_of trial_parameters (lstrip ''$'' (py_str rp val)) of
        Some t \<Rightarrow> t
      | None \<Rightarrow> val)"

definition substitute_section :: "(yaml \<Rightarrow> string) \<Rightarrow> pydict \<Rightarrow> yaml \<Rightarrow> yaml" where
  "substitute_section rp trial_parameters sec =
     (case sec of
        YMap items \<Rightarrow> YMap (map (\<lambda>(param, val). (param, substitute rp trial_parameters val)) items)
      | other \<Rightarrow> other)"

definition substitute_sections :: "(yaml \<Rightarrow> string) \<Rightarrow> pydict \<Rightarrow> yaml \<Rightarrow> yaml" where
  "substitute_sections rp trial_parameters parameters =
     (case parameters of
        YMap entries \<Rightarrow>
          YMap (map (\<lambda>(k, v). (k, if k = ''with'' \<or> k = ''metas''
                                  then substitute_section rp trial_parameters v else v)) entries)
      | other \<Rightarrow> other)"

definition substitute_components :: "(yaml \<Rightarrow> string) \<Rightarrow> pydict \<Rightarrow> yaml \<Rightarrow> yaml" where
  "substitute_components rp trial_parameters parameters =
     (case parameters of
        YMap entries \<Rightarrow>
          YMap (map (\<lambda>(k, v). (k, if k = ''components''
                                  then (case v of
                                          YSeq components \<Rightarrow>
                                            YSeq (map (substitute_sections rp trial_parameters) components)
                                        | other \<Rightarrow> other)
                                  else v)) entries)
      | other \<Rightarrow> other)"

definition substitute_file :: "(yaml \<Rightarrow> string) \<Rightarrow> pydict \<Rightarrow> yaml \<Rightarrow> yaml" where
  "substitute_file rp trial_parameters parameters =
     substitute_sections rp trial_parameters (substitute_components rp trial_parameters parameters)"

text \<open>
  The documents the substitution is made for: a mapping whose sections \<^verbatim>\<open>with\<close> and
  \<^verbatim>\<open>metas\<close>, where present, are mappings; and such a mapping whose \<^verbatim>\<open>components\<close>, where
  present, is a list of such mappings. The keys of each mapping are distinct.
\<close>

definition sections_ok :: "yaml \<Rightarrow> bool" where
  "sections_ok parameters =
     (case parameters of
        YMap entries \<Rightarrow>
          wf_dict entries \<and>
          list_all (\<lambda>(k, v). k = ''with'' \<or> k = ''metas'' \<longrightarrow>
                      (case v of YMap items \<Rightarrow> wf_dict items | other \<Rightarrow> False)) entries
      | other \<Rightarrow> False)"

definition pod_file_ok :: "yaml \<Rightarrow> bool" where
  "pod_file_ok parameters =
     (sections_ok parameters \<and>
      (case py_getitem parameters ''components'' of
         Inr (YSeq components) \<Rightarrow> list_all sections_ok components
       | Inr other \<Rightarrow> False
       | Inl e \<Rightarrow> True))"

text \<open>
  Failure of a sequence of calls: \<open>fails_at e m rest\<close> holds when the call \<open>m\<close> fails with
  the exception \<open>e\<close>, or \<open>m\<close> returns \<open>x\<close> and \<open>rest x\<close>, the failure of what follows the call,
  holds.
\<close>

definition fails_at :: "error \<Rightarrow> error + 'a \<Rightarrow> ('a \<Rightarrow> bool) \<Rightarrow> bool" where
  "fails_at e m rest = (case m of Inl e' \<Rightarrow> e' = e | Inr x \<Rightarrow> rest x)"

section \<open>Sample inputs\<close>

text \<open>
  Stand-ins for the external libraries, and a small file system, used where a statement
  is evaluated on a concrete run. The parser knows the four files of the sample, the
  printer writes a flat mapping, the indexing flow writes one file into the directory
  named by \<^verbatim>\<open>JINA_WORKSPACE\<close>, and the search flow answers with one document whose
  precision is 1 for the first trial workspace and 0 otherwise.
\<close>

definition sample_yaml_load :: "string \<Rightarrow> string \<Rightarrow> error + yaml" where
  "sample_yaml_load typ text =
     (if text = ''JINA_WORKSPACE: ws'' then Inr (YMap [(''JINA_WORKSPACE'', YStr ''ws'')])
      else if text = ''with: {dim: $dim}'' then Inr (YMap [(''with'', YMap [(''dim'', YStr ''$dim'')])])
      else if text = ''pods: {encoder: {uses: pods/encoder.yml}}''
        then Inr (YMap [(''pods'', YMap [(''encoder'', YMap [(''uses'', YStr ''pods/encoder.yml'')])])])
      else if text = ''dim: {type: int, low: 1, high: 2}''
        then Inr (YMap [(''dim'', YMap [(''type'', YStr ''int''), (''low'', YInt 1), (''high'', YInt 2)])])
      else Inl (LibraryError ''YAMLError''))"

definition sample_yaml_dump :: "yaml \<Rightarrow> error + string" where
  "sample_yaml_dump v =
     (case v of
        YMap items \<Rightarrow> Inr (join '', '' (map (\<lambda>(k, x). k @ '': '' @ py_str (\<lambda>u. ''?'') x) items))
      | other \<Rightarrow> Inr (py_str (\<lambda>u. ''?'') other))"

definition sample_flow_index :: "path \<Rightarrow> string list \<Rightarrow> int \<Rightarrow> world \<Rightarrow> error + world" where
  "sample_flow_index y documents batch_size w =
     (case map_of (environ w) ''JINA_WORKSPACE'' of
        None \<Rightarrow> Inl (LibraryError ''BadWorkspace'')
      | Some d \<Rightarrow>
          (case makedirs (fs w) (Path d) of
             Inl e \<Rightarrow> Inl e
           | Inr f \<Rightarrow>
               Inr (w\<lparr>fs := AList.update (Path d @ [''index.bin'']) (File (concat documents)) f\<rparr>)))"

definition sample_flow_search ::
  "path \<Rightarrow> string list \<Rightarrow> int \<Rightarrow> world \<Rightarrow> error + (response list \<times> world)" where
  "sample_flow_search y documents batch_size w =
     (if y = [''JINA_WORKSPACE_1'', ''flows'', ''query.yml'']
      then Inr ([Response [Doc [Evaluation ''precision'' 1]]], w)
      else Inr ([Response [Doc [Evaluation ''precision'' 0]]], w))"

definition sample_externals :: externals where
  "sample_externals =
     \<lparr>yaml_load = sample_yaml_load, yaml_dump = sample_yaml_dump, repr = (\<lambda>u. ''?''),
      flow_index = sample_flow_index, flow_search = sample_flow_search\<rparr>"

definition sample_fs :: filesystem where
  "sample_fs =
     [([''env.yml''], File ''JINA_WORKSPACE: ws''),
      ([''ws''], Dir),
      ([''ws'', ''index.bin''], File ''old''),
      ([''pods''], Dir),
      ([''pods'', ''encoder.yml''], File ''with: {dim: $dim}''),
      ([''flows''], Dir),
      ([''flows'', ''index.yml''], File ''pods: {encoder: {uses: pods/encoder.yml}}''),
      ([''flows'', ''query.yml''], File ''pods: {encoder: {uses: pods/encoder.yml}}''),
      ([''params.yml''], File ''dim: {type: int, low: 1, high: 2}'')]"

definition sample_world :: world where
  "sample_world = \<lparr>fs = sample_fs, environ = [], flow_calls = []\<rparr>"

text \<open>A runner that loads \<^verbatim>\<open>env.yml\<close>, with and without \<^verbatim>\<open>overwrite_workspace\<close>.\<close>

definition sample_runner :: "bool \<Rightarrow> FlowRunner" where
  "sample_runner ow =
     FlowRunner_init [''a'', ''b''] [''q''] 2 1 (Some ''env.yml'') ''JINA_WORKSPACE'' ow"

text \<open>
  A trial whose \<^verbatim>\<open>suggest_int\<close> returns \<open>n\<close>, a search library whose \<open>k\<close>-th trial suggests
  \<open>k\<close> and whose best trial is the first one with the best value, and an optimizer over
  the sample files.
\<close>

definition sample_trial :: "int \<Rightarrow> trial" where
  "sample_trial n m param kwargs =
     (if m = ''suggest_int'' then Inr (YInt n) else Inl AttributeError)"

definition sample_optuna :: optuna where
  "sample_optuna =
     \<lparr>ask = (\<lambda>direction seed vals. sample_trial (int (length vals) + 1)),
      best_params = (\<lambda>direction seed vals.
        if vals = [] then Inl ValueError
        else Inr [(''dim'',
               YInt (1 + int (length (takeWhile
                 (\<lambda>x. x \<noteq> (if direction = ''maximize'' then Max (set vals) else Min (set vals)))
                 vals))))])\<rparr>"

definition sample_optimizer :: Optimizer where
  "sample_optimizer =
     Optimizer_init (sample_runner True) ''pods'' ''flows/index.yml'' ''flows/query.yml''
       ''params.yml'' (OptimizerCallback_init None) ''config/best_config.yml'' True
       ''$JINA_WORKSPACE''"

section \<open>The accumulator of the callback\<close>

lemma map_of_add_evaluation:
  "map_of (add_evaluation vals ev) =
     (map_of vals)(eval_op_name ev \<mapsto> dict_get vals (eval_op_name ev) 0 + eval_value ev)"
  by (simp add: add_evaluation_def update_conv')

lemma dict_get_add_evaluation:
  "dict_get (add_evaluation vals ev) m 0 =
     dict_get vals m 0 + (if eval_op_name ev = m then eval_value ev else 0)"
  by (simp add: dict_get_def map_of_add_evaluation)

lemma dict_get_doc:
  "dict_get (foldl add_evaluation vals evs) m 0 =
     dict_get vals m 0 + sum_list (map eval_value (filter (\<lambda>e. eval_op_name e = m) evs))"
  by (induction evs arbitrary: vals) (simp_all add: dict_get_add_evaluation)

lemma dict_get_docs:
  "dict_get (foldl (\<lambda>vals d. foldl add_evaluation vals (evaluations d)) vals ds) m 0 =
     dict_get vals m 0 + sum_list (concat (map (metric_values m) ds))"
  by (induction ds arbitrary: vals) (simp_all add: dict_get_doc metric_values_def)

lemma dict_get_process_result:
  "dict_get (evaluation_values (process_result self resp)) m 0 =
     dict_get (evaluation_values self) m 0 + sum_list (concat (map (metric_values m) (docs resp)))"
  by (simp add: process_result_def dict_get_docs)

lemma n_docs_process_result:
  "n_docs (process_result self resp) = n_docs self + int (length (docs resp))"
  by (simp add: process_result_def)

lemma op_name_process_result: "op_name (process_result self resp) = op_name self"
  by (simp add: process_result_def)

lemma dict_get_responses:
  "dict_get (evaluation_values (foldl process_result self rs)) m 0 =
     dict_get (evaluation_values self) m 0 + metric_total m rs"
  by (induction rs arbitrary: self)
     (simp_all add: dict_get_process_result metric_total_def recorded_docs_def)

lemma n_docs_responses:
  "n_docs (foldl process_result self rs) = n_docs self + int (length (recorded_docs rs))"
  by (induction rs arbitrary: self) (simp_all add: n_docs_process_result recorded_docs_def)

lemma op_name_responses: "op_name (foldl process_result self rs) = op_name self"
  by (induction rs arbitrary: self) (simp_all add: op_name_process_result)

lemma keys_add_evaluation:
  "fst ` set (add_evaluation vals ev) = insert (eval_op_name ev) (fst ` set vals)"
  by (simp add: add_evaluation_def update_keys dom_map_of_conv_image_fst [symmetric] update_conv')

lemma keys_doc:
  "fst ` set (foldl add_evaluation vals evs) = fst ` set vals \<union> eval_op_name ` set evs"
  by (induction evs arbitrary: vals) (auto simp: keys_add_evaluation)

lemma keys_docs:
  "fst ` set (foldl (\<lambda>vals d. foldl add_evaluation vals (evaluations d)) vals ds) =
     fst ` set vals \<union> eval_op_name ` (\<Union>d \<in> set ds. set (evaluations d))"
  by (induction ds arbitrary: vals) (auto simp: keys_doc)

lemma keys_process_result:
  "fst ` set (evaluation_values (process_result self resp)) =
     fst ` set (evaluation_values self) \<union> eval_op_name ` (\<Union>d \<in> set (docs resp). set (evaluations d))"
  by (simp add: process_result_def keys_docs)

lemma keys_responses:
  "fst ` set (evaluation_values (foldl process_result self rs)) =
     fst ` set (evaluation_values self) \<union>
     eval_op_name ` (\<Union>d \<in> set (recorded_docs rs). set (evaluations d))"
proof (induction rs arbitrary: self)
  case Nil
  show ?case by (simp add: recorded_docs_def)
next
  case (Cons r rs)
  have "recorded_docs (r # rs) = docs r @ recorded_docs rs"
    by (simp add: recorded_docs_def)
  then show ?case
    by (simp add: Cons.IH keys_process_result image_Un Un_assoc)
qed

lemma map_of_mean_items:
  assumes "n \<noteq> 0" "distinct (map fst items)"
  shows "\<exists>d. mean_items n items acc = Inr d \<and>
           (\<forall>m. map_of d m = (case map_of items m of
                                None \<Rightarrow> map_of acc m
                              | Some v \<Rightarrow> Some (v / real_of_int n)))"
  using assms
proof (induction items arbitrary: acc)
  case Nil
  then show ?case by simp
next
  case (Cons it items)
  obtain k v where it: "it = (k, v)" by (cases it)
  from Cons.prems have d: "distinct (map fst items)" and k: "k \<notin> fst ` set items"
    by (auto simp: it)
  from Cons.IH [OF Cons.prems(1) d, of "AList.update k (v / real_of_int n) acc"]
  obtain d' where d': "mean_items n items (AList.update k (v / real_of_int n) acc) = Inr d'"
    and m: "\<And>m. map_of d' m = (case map_of items m of
                 None \<Rightarrow> map_of (AList.update k (v / real_of_int n) acc) m
               | Some x \<Rightarrow> Some (x / real_of_int n))"
    by blast
  have kn: "map_of items k = None" using k by (simp add: map_of_eq_None_iff)
  show ?case
    using Cons.prems(1) d' m kn
    by (auto simp: it truediv_def update_conv' split: option.splits)
qed

lemma distinct_add_evaluation:
  "distinct (map fst vals) \<Longrightarrow> distinct (map fst (add_evaluation vals ev))"
  by (simp add: add_evaluation_def distinct_update)

lemma distinct_doc:
  "distinct (map fst vals) \<Longrightarrow> distinct (map fst (foldl add_evaluation vals evs))"
  by (induction evs arbitrary: vals) (simp_all add: distinct_add_evaluation)

lemma distinct_docs:
  "distinct (map fst vals) \<Longrightarrow>
   distinct (map fst (foldl (\<lambda>vals d. foldl add_evaluation vals (evaluations d)) vals ds))"
  by (induction ds arbitrary: vals) (simp_all add: distinct_doc)

lemma distinct_process_result:
  "distinct (map fst (evaluation_values self)) \<Longrightarrow>
   distinct (map fst (evaluation_values (process_result self resp)))"
  by (simp add: process_result_def distinct_docs)

lemma distinct_responses:
  "distinct (map fst (evaluation_values self)) \<Longrightarrow>
   distinct (map fst (evaluation_values (foldl process_result self rs)))"
  by (induction rs arbitrary: self) (simp_all add: distinct_process_result)

lemma init_fields:
  "op_name (OptimizerCallback_init opn) = opn"
  "evaluation_values (OptimizerCallback_init opn) = []"
  "n_docs (OptimizerCallback_init opn) = 0"
  by (simp_all add: OptimizerCallback_init_def)

lemma recorded_metric_lookup:
  assumes "m \<in> eval_op_name ` (\<Union>d \<in> set (recorded_docs rs). set (evaluations d))"
  shows "map_of (evaluation_values (foldl process_result (OptimizerCallback_init opn) rs)) m =
           Some (metric_total m rs)"
proof -
  let ?cb = "foldl process_result (OptimizerCallback_init opn) rs"
  have "m \<in> fst ` set (evaluation_values ?cb)"
    using assms by (simp add: keys_responses init_fields)
  then obtain v where v: "map_of (evaluation_values ?cb) m = Some v"
    by (metis domD dom_map_of_conv_image_fst)
  have "dict_get (evaluation_values ?cb) m 0 =
          dict_get (evaluation_values (OptimizerCallback_init opn)) m 0 + metric_total m rs"
    by (rule dict_get_responses)
  with v show ?thesis by (simp add: dict_get_def init_fields)
qed

text \<open>
  The mean of a callback that has recorded nothing but the responses \<open>rs\<close> since it was
  constructed, as in the first trial of a study: with \<open>N > 0\<close> documents in all and one
  value per document for the metric \<open>m\<close>, summing to \<open>S\<close>, \<^verbatim>\<open>get_mean_evaluation\<close>
  returns \<open>S / N\<close> for \<open>m\<close>, as the float it returns when \<^verbatim>\<open>op_name\<close> is \<open>m\<close> and under the
  key \<open>m\<close> of the dictionary it returns when \<^verbatim>\<open>op_name\<close> is not set. The callback of an
  optimizer is in this state in its first trial only; the later trials are the subject
  of the last section.
\<close>

theorem mean_is_sum_over_count:
  assumes "0 < length (recorded_docs rs)"
    and "\<forall>d \<in> set (recorded_docs rs). length (metric_values m d) = 1"
  shows "(opn = Some m \<and> m \<noteq> [] \<longrightarrow>
            get_mean_evaluation (foldl process_result (OptimizerCallback_init opn) rs) =
              Inr (Scalar (metric_total m rs / real (length (recorded_docs rs))))) \<and>
         (\<not> py_truthy opn \<longrightarrow>
            (\<exists>d. get_mean_evaluation (foldl process_result (OptimizerCallback_init opn) rs) =
                    Inr (PerMetric d) \<and>
                  map_of d m = Some (metric_total m rs / real (length (recorded_docs rs)))))"
proof -
  let ?cb = "foldl process_result (OptimizerCallback_init opn) rs"
  let ?n = "length (recorded_docs rs)"
  from assms(1) obtain d0 where d0: "d0 \<in> set (recorded_docs rs)"
    by (cases "recorded_docs rs") auto
  with assms(2) have "metric_values m d0 \<noteq> []" by fastforce
  then obtain e where "e \<in> set (evaluations d0)" "eval_op_name e = m"
    by (auto simp: metric_values_def filter_empty_conv)
  with d0 have "m \<in> eval_op_name ` (\<Union>d \<in> set (recorded_docs rs). set (evaluations d))"
    by blast
  then have look: "map_of (evaluation_values ?cb) m = Some (metric_total m rs)"
    by (rule recorded_metric_lookup)
  have n: "n_docs ?cb = int ?n" by (simp add: n_docs_responses init_fields)
  have n0: "n_docs ?cb \<noteq> 0" using assms(1) n by simp
  have opn: "op_name ?cb = opn" by (simp add: op_name_responses init_fields)
  have dist: "distinct (map fst (evaluation_values ?cb))"
    by (rule distinct_responses) (simp add: init_fields)
  have scalar: "opn = Some m \<and> m \<noteq> [] \<longrightarrow>
      get_mean_evaluation ?cb = Inr (Scalar (metric_total m rs / real ?n))"
  proof (intro impI)
    assume a: "opn = Some m \<and> m \<noteq> []"
    have t: "py_truthy (op_name ?cb)" using a opn by (simp add: py_truthy_def)
    have "the (op_name ?cb) = m" using a opn by simp
    with t look n n0
    show "get_mean_evaluation ?cb = Inr (Scalar (metric_total m rs / real ?n))"
      by (simp add: get_mean_evaluation_def truediv_def)
  qed
  from map_of_mean_items [OF n0 dist, of "[]"]
  obtain d where d: "mean_items (n_docs ?cb) (evaluation_values ?cb) [] = Inr d"
    and dm: "\<And>k. map_of d k = (case map_of (evaluation_values ?cb) k of
                None \<Rightarrow> map_of [] k | Some v \<Rightarrow> Some (v / real_of_int (n_docs ?cb)))"
    by blast
  have "map_of d m = Some (metric_total m rs / real ?n)"
    using dm [of m] look n by simp
  with d opn have "\<not> py_truthy opn \<longrightarrow>
      (\<exists>d. get_mean_evaluation ?cb = Inr (PerMetric d) \<and>
           map_of d m = Some (metric_total m rs / real ?n))"
    unfolding get_mean_evaluation_def by auto
  with scalar show ?thesis by blast
qed

theorem mean_is_sum_over_count_witness:
  "get_mean_evaluation (foldl process_result (OptimizerCallback_init (Some ''precision''))
     [Response [Doc [Evaluation ''precision'' 1, Evaluation ''recall'' (1/2)]],
      Response [Doc [Evaluation ''precision'' 0, Evaluation ''recall'' 1]]]) = Inr (Scalar (1/2)) \<and>
   (\<exists>d. get_mean_evaluation (foldl process_result (OptimizerCallback_init None)
     [Response [Doc [Evaluation ''precision'' 1, Evaluation ''recall'' (1/2)]],
      Response [Doc [Evaluation ''precision'' 0, Evaluation ''recall'' 1]]]) = Inr (PerMetric d) \<and>
      map_of d ''recall'' = Some (3/4))"
  using mean_is_sum_over_count [of
      "[Response [Doc [Evaluation ''precision'' 1, Evaluation ''recall'' (1/2)]],
        Response [Doc [Evaluation ''precision'' 0, Evaluation ''recall'' 1]]]"
      "''precision''" "Some ''precision''"]
    mean_is_sum_over_count [of
      "[Response [Doc [Evaluation ''precision'' 1, Evaluation ''recall'' (1/2)]],
        Response [Doc [Evaluation ''precision'' 0, Evaluation ''recall'' 1]]]"
      "''recall''" None]
  by (simp add: recorded_docs_def metric_values_def metric_total_def py_truthy_def)

lemma metric_values_nonneg:
  "list_all (\<lambda>e. 0 \<le> eval_value e) (evaluations d) \<Longrightarrow> 0 \<le> sum_list (metric_values m d)"
  by (auto simp: metric_values_def list_all_iff intro!: sum_list_nonneg)

lemma response_total_nonneg:
  "nonneg_response resp \<Longrightarrow> 0 \<le> sum_list (concat (map (metric_values m) (docs resp)))"
proof -
  assume a: "nonneg_response resp"
  have "\<And>x. x \<in> set (concat (map (metric_values m) (docs resp))) \<Longrightarrow> 0 \<le> x"
    using a by (auto simp: nonneg_response_def metric_values_def list_all_iff)
  then show ?thesis by (rule sum_list_nonneg)
qed

lemma metric_total_nonneg:
  "list_all nonneg_response rs \<Longrightarrow> 0 \<le> metric_total m rs"
proof -
  assume a: "list_all nonneg_response rs"
  have "\<And>x. x \<in> set (concat (map (metric_values m) (recorded_docs rs))) \<Longrightarrow> 0 \<le> x"
    using a by (auto simp: nonneg_response_def metric_values_def recorded_docs_def list_all_iff)
  then show ?thesis unfolding metric_total_def by (rule sum_list_nonneg)
qed

text \<open>
  C6. Within a trial, at the point reached after any responses \<open>rs\<close> and across the next
  call of \<^verbatim>\<open>process_result\<close>, the document count and the running sum of every metric
  (\<^verbatim>\<open>evaluation_values.get(m, 0.0)\<close>) are non-negative and do not decrease, when
  the evaluation values of the responses are non-negative. The number of documents of a
  response is the length of a list, so it is never negative.
\<close>

theorem accumulator_nonneg_and_monotone:
  assumes "list_all nonneg_response rs" and "nonneg_response resp"
  shows "0 \<le> n_docs (foldl process_result (OptimizerCallback_init opn) rs) \<and>
         0 \<le> dict_get (evaluation_values (foldl process_result (OptimizerCallback_init opn) rs)) m 0 \<and>
         n_docs (foldl process_result (OptimizerCallback_init opn) rs) \<le>
           n_docs (process_result (foldl process_result (OptimizerCallback_init opn) rs) resp) \<and>
         dict_get (evaluation_values (foldl process_result (OptimizerCallback_init opn) rs)) m 0 \<le>
           dict_get (evaluation_values
             (process_result (foldl process_result (OptimizerCallback_init opn) rs) resp)) m 0"
proof -
  let ?cb = "foldl process_result (OptimizerCallback_init opn) rs"
  have 1: "0 \<le> n_docs ?cb" by (simp add: n_docs_responses init_fields)
  have "dict_get (evaluation_values ?cb) m 0 =
          dict_get (evaluation_values (OptimizerCallback_init opn)) m 0 + metric_total m rs"
    by (rule dict_get_responses)
  then have "dict_get (evaluation_values ?cb) m 0 = metric_total m rs"
    by (simp add: init_fields dict_get_def)
  with metric_total_nonneg [OF assms(1)]
  have 2: "0 \<le> dict_get (evaluation_values ?cb) m 0" by simp
  have 3: "n_docs ?cb \<le> n_docs (process_result ?cb resp)"
    by (simp add: n_docs_process_result)
  have 4: "dict_get (evaluation_values ?cb) m 0 \<le>
             dict_get (evaluation_values (process_result ?cb resp)) m 0"
    using response_total_nonneg [OF assms(2), of m]
    by (simp add: dict_get_process_result)
  from 1 2 3 4 show ?thesis by blast
qed

theorem accumulator_nonneg_and_monotone_witness:
  "list_all nonneg_response [Response [Doc [Evaluation ''precision'' 1]]] \<and>
   nonneg_response (Response [Doc [Evaluation ''precision'' (1/2)], Doc []]) \<and>
   0 \<le> n_docs (foldl process_result (OptimizerCallback_init None)
                  [Response [Doc [Evaluation ''precision'' 1]]]) \<and>
   n_docs (foldl process_result (OptimizerCallback_init None)
             [Response [Doc [Evaluation ''precision'' 1]]]) \<le>
     n_docs (process_result (foldl process_result (OptimizerCallback_init None)
                               [Response [Doc [Evaluation ''precision'' 1]]])
               (Response [Doc [Evaluation ''precision'' (1/2)], Doc []])) \<and>
   dict_get (evaluation_values (foldl process_result (OptimizerCallback_init None)
                [Response [Doc [Evaluation ''precision'' 1]]])) ''precision'' 0 \<le>
     dict_get (evaluation_values
        (process_result (foldl process_result (OptimizerCallback_init None)
                               [Response [Doc [Evaluation ''precision'' 1]]])
               (Response [Doc [Evaluation ''precision'' (1/2)], Doc []]))) ''precision'' 0"
proof -
  have h1: "list_all nonneg_response [Response [Doc [Evaluation ''precision'' 1]]]"
    by (simp add: nonneg_response_def)
  have h2: "nonneg_response (Response [Doc [Evaluation ''precision'' (1/2)], Doc []])"
    by (simp add: nonneg_response_def)
  from accumulator_nonneg_and_monotone [OF h1 h2, of None "''precision''"] h1 h2
  show ?thesis by blast
qed

lemma mean_items_zero:
  "(mean_items 0 items acc = Inl ZeroDivisionError) = (items \<noteq> [])"
  by (cases items) (auto simp: truediv_def)

lemma mean_items_zero_nil: "mean_items n [] acc = Inr acc"
  by simp

lemma mean_items_nonzero:
  "n \<noteq> 0 \<Longrightarrow> \<exists>d. mean_items n items acc = Inr d"
  by (induction items arbitrary: acc) (auto simp: truediv_def)

lemma no_docs_no_values:
  assumes "n_docs (foldl process_result (OptimizerCallback_init opn) rs) = 0"
  shows "evaluation_values (foldl process_result (OptimizerCallback_init opn) rs) = []"
proof -
  from assms have "recorded_docs rs = []"
    by (simp add: n_docs_responses init_fields)
  then have "fst ` set (evaluation_values (foldl process_result (OptimizerCallback_init opn) rs)) = {}"
    by (simp add: keys_responses init_fields)
  then show ?thesis by simp
qed

text \<open>
  C9. The claim as stated fails on a callback that has recorded no documents: with
  \<^verbatim>\<open>op_name\<close> not set the comprehension runs over an empty dict and the empty dict is
  returned, and with \<^verbatim>\<open>op_name\<close> set the lookup raises KeyError before the division.
\<close>

theorem no_documents_counterexample:
  "n_docs (OptimizerCallback_init None) = 0 \<and>
   get_mean_evaluation (OptimizerCallback_init None) = Inr (PerMetric []) \<and>
   n_docs (OptimizerCallback_init (Some ''precision'')) = 0 \<and>
   get_mean_evaluation (OptimizerCallback_init (Some ''precision'')) = Inl (KeyError ''precision'')"
  by (simp add: OptimizerCallback_init_def get_mean_evaluation_def py_truthy_def)

text \<open>
  C9, as amended. With \<open>n_docs = 0\<close> the division is unguarded: the call raises
  ZeroDivisionError exactly when a division is evaluated, that is when \<^verbatim>\<open>op_name\<close> is set
  and is a key of \<^verbatim>\<open>evaluation_values\<close>, or \<^verbatim>\<open>op_name\<close> is not set and
  \<^verbatim>\<open>evaluation_values\<close> is not empty. On a callback that has recorded no documents
  since its construction \<^verbatim>\<open>evaluation_values\<close> is empty, so the call returns the empty
  dict (\<^verbatim>\<open>op_name\<close> not set) or raises KeyError (\<^verbatim>\<open>op_name\<close> set). With
  \<open>n_docs \<noteq> 0\<close> ZeroDivisionError is never raised.
\<close>

theorem division_by_zero_cases:
  "(n_docs self = 0 \<longrightarrow>
      (get_mean_evaluation self = Inl ZeroDivisionError) =
        (if py_truthy (op_name self)
         then map_of (evaluation_values self) (the (op_name self)) \<noteq> None
         else evaluation_values self \<noteq> [])) \<and>
   (n_docs (foldl process_result (OptimizerCallback_init opn) rs) = 0 \<longrightarrow>
      get_mean_evaluation (foldl process_result (OptimizerCallback_init opn) rs) =
        (if py_truthy opn then Inl (KeyError (the opn)) else Inr (PerMetric []))) \<and>
   (n_docs other \<noteq> 0 \<longrightarrow> get_mean_evaluation other \<noteq> Inl ZeroDivisionError)"
proof (intro conjI impI)
  assume z: "n_docs self = 0"
  show "(get_mean_evaluation self = Inl ZeroDivisionError) =
        (if py_truthy (op_name self)
         then map_of (evaluation_values self) (the (op_name self)) \<noteq> None
         else evaluation_values self \<noteq> [])"
  proof (cases "py_truthy (op_name self)")
    case True
    then show ?thesis
      using z by (auto simp: get_mean_evaluation_def truediv_def split: option.splits)
  next
    case False
    have "(mean_items 0 (evaluation_values self) [] = Inl ZeroDivisionError) =
            (evaluation_values self \<noteq> [])"
      by (rule mean_items_zero)
    with False z show ?thesis
      by (auto simp: get_mean_evaluation_def split: sum.splits)
  qed
next
  let ?cb = "foldl process_result (OptimizerCallback_init opn) rs"
  assume z: "n_docs ?cb = 0"
  have e: "evaluation_values ?cb = []" using z by (rule no_docs_no_values)
  have o: "op_name ?cb = opn" by (simp add: op_name_responses init_fields)
  show "get_mean_evaluation ?cb =
          (if py_truthy opn then Inl (KeyError (the opn)) else Inr (PerMetric []))"
    unfolding get_mean_evaluation_def e o by simp
next
  assume nz: "n_docs other \<noteq> 0"
  from mean_items_nonzero [OF nz] obtain d
    where "mean_items (n_docs other) (evaluation_values other) [] = Inr d" by blast
  with nz show "get_mean_evaluation other \<noteq> Inl ZeroDivisionError"
    by (auto simp: get_mean_evaluation_def truediv_def split: option.splits)
qed

theorem division_by_zero_cases_witness:
  "get_mean_evaluation \<lparr>op_name = None, evaluation_values = [(''precision'', 1)], n_docs = 0\<rparr>
     = Inl ZeroDivisionError \<and>
   get_mean_evaluation (foldl process_result (OptimizerCallback_init None) [Response []])
     = Inr (PerMetric []) \<and>
   get_mean_evaluation (foldl process_result (OptimizerCallback_init None)
       [Response [Doc [Evaluation ''precision'' 1]]]) \<noteq> Inl ZeroDivisionError"
  using division_by_zero_cases [of
     "\<lparr>op_name = None, evaluation_values = [(''precision'', 1)], n_docs = 0\<rparr>"
     None "[Response []]"
     "foldl process_result (OptimizerCallback_init None) [Response [Doc [Evaluation ''precision'' 1]]]"]
  by (simp add: py_truthy_def OptimizerCallback_init_def process_result_def)

section \<open>Indexing and the workspace\<close>

lemma load_env_no_yaml: "\<not> py_truthy (env_yaml self) \<Longrightarrow> load_env ext self w = Inr (self, w)"
  by (simp add: load_env_def)

lemma load_env_frame:
  assumes "load_env ext self w = Inr (self1, w1)"
  shows "self1\<lparr>env_parameters := env_parameters self\<rparr> = self"
    and "w1\<lparr>environ := environ w\<rparr> = w"
  using assms
  by (auto simp: load_env_def split: if_splits sum.splits)

lemma load_env_fields:
  assumes "load_env ext self w = Inr (self1, w1)"
  shows "fs w1 = fs w" "flow_calls w1 = flow_calls w"
    "workspace_env self1 = workspace_env self"
    "overwrite_workspace self1 = overwrite_workspace self"
    "index_document_generator self1 = index_document_generator self"
    "index_batch_size self1 = index_batch_size self"
  using assms
  by (auto simp: load_env_def split: if_splits sum.splits)

lemma putenv_keeps:
  "putenv env k v = Inr env' \<Longrightarrow> map_of env x \<noteq> None \<Longrightarrow> map_of env' x \<noteq> None"
  by (auto simp: putenv_def update_conv' split: if_splits)

lemma set_environ_keeps:
  "set_environ rp items env = Inr env' \<Longrightarrow> map_of env x \<noteq> None \<Longrightarrow> map_of env' x \<noteq> None"
proof (induction items arbitrary: env)
  case Nil
  then show ?case by simp
next
  case (Cons it items)
  obtain k v where it: "it = (k, v)" by (cases it)
  from Cons.prems(1) obtain env1 where p: "putenv env k (py_str rp v) = Inr env1"
    and r: "set_environ rp items env1 = Inr env'"
    by (auto simp: it split: sum.splits)
  from putenv_keeps [OF p Cons.prems(2)] have "map_of env1 x \<noteq> None" .
  from Cons.IH [OF r this] show ?case .
qed

lemma load_env_keeps:
  assumes "load_env ext self w = Inr (self1, w1)" and "map_of (environ w) x \<noteq> None"
  shows "map_of (environ w1) x \<noteq> None"
  using assms
  by (auto simp: load_env_def split: if_splits sum.splits dest: set_environ_keeps)

lemma workspace_path_set:
  "map_of (environ w) (workspace_env self) = Some v \<Longrightarrow>
   workspace_path self w workspace = Inr (Path v)"
  by (simp add: workspace_path_def)

lemma workspace_path_unset:
  "map_of (environ w) (workspace_env self) = None \<Longrightarrow>
   workspace_path self w workspace =
     (case workspace of None \<Rightarrow> Inl TypeError | Some p \<Rightarrow> Inr p)"
  by (simp add: workspace_path_def)

text \<open>
  C10. In \<^verbatim>\<open>run_indexing\<close>, when the environment variable named by \<^verbatim>\<open>workspace_env\<close> is
  set at the call, the result does not depend on the \<^verbatim>\<open>workspace\<close> argument; the
  workspace is the path in the variable as it stands once \<^verbatim>\<open>_load_env\<close> has run, and the
  argument is used only when the variable is not set then (\<^verbatim>\<open>None\<close> is a TypeError).
\<close>

theorem workspace_from_environment:
  "(map_of (environ w) (workspace_env self) \<noteq> None \<longrightarrow>
      run_indexing ext self w y workspace =
      run_indexing ext self w y workspace') \<and>
   (load_env ext self w = Inr (self1, w1) \<longrightarrow>
      run_indexing ext self w y workspace =
        (case map_of (environ w1) (workspace_env self) of
           Some v \<Rightarrow> index_workspace ext self1 w1 y (Path v)
         | None \<Rightarrow>
             (case workspace of
                None \<Rightarrow> Inl TypeError
              | Some p \<Rightarrow> index_workspace ext self1 w1 y p)))"
proof (intro conjI impI)
  assume s: "map_of (environ w) (workspace_env self) \<noteq> None"
  show "run_indexing ext self w y workspace =
        run_indexing ext self w y workspace'"
  proof (cases "load_env ext self w")
    case (Inl e)
    then show ?thesis by (simp add: run_indexing_def)
  next
    case (Inr r)
    obtain self1 w1 where r: "r = (self1, w1)" by (cases r)
    from Inr r have l: "load_env ext self w = Inr (self1, w1)" by simp
    from load_env_keeps [OF l s] load_env_fields(3) [OF l]
    obtain v where "map_of (environ w1) (workspace_env self1) = Some v" by auto
    then have "workspace_path self1 w1 workspace = workspace_path self1 w1 workspace'"
      by (simp add: workspace_path_def)
    with l show ?thesis by (simp add: run_indexing_def)
  qed
next
  assume l: "load_env ext self w = Inr (self1, w1)"
  have we: "workspace_env self1 = workspace_env self" by (rule load_env_fields(3) [OF l])
  show "run_indexing ext self w y workspace =
        (case map_of (environ w1) (workspace_env self) of
           Some v \<Rightarrow> index_workspace ext self1 w1 y (Path v)
         | None \<Rightarrow>
             (case workspace of
                None \<Rightarrow> Inl TypeError
              | Some p \<Rightarrow> index_workspace ext self1 w1 y p))"
    using l we
    by (simp add: run_indexing_def workspace_path_def split: option.splits)
qed

lemma sample_load_env:
  "load_env sample_externals (sample_runner ow) (sample_world\<lparr>environ := env\<rparr>) =
     (case putenv env ''JINA_WORKSPACE'' ''ws'' of
        Inl e \<Rightarrow> Inl e
      | Inr env' \<Rightarrow>
          Inr ((sample_runner ow)\<lparr>env_parameters := Some (YMap [(''JINA_WORKSPACE'', YStr ''ws'')])\<rparr>,
               sample_world\<lparr>environ := env'\<rparr>))"
  by (simp add: load_env_def sample_runner_def FlowRunner_init_def py_truthy_def load_yaml_def
      sample_world_def sample_fs_def read_file_def node_at_def Path_def sample_externals_def
      sample_yaml_load_def split: sum.splits)

theorem workspace_from_environment_witness:
  "run_indexing sample_externals (sample_runner False)
       (sample_world\<lparr>environ := [(''JINA_WORKSPACE'', ''elsewhere'')]\<rparr>)
       [''flows'', ''index.yml''] (Some [''pods'']) =
   run_indexing sample_externals (sample_runner False)
       (sample_world\<lparr>environ := [(''JINA_WORKSPACE'', ''elsewhere'')]\<rparr>)
       [''flows'', ''index.yml''] None \<and>
   run_indexing sample_externals (sample_runner False) sample_world
       [''flows'', ''index.yml''] (Some [''pods'']) =
     index_workspace sample_externals
       ((sample_runner False)\<lparr>env_parameters := Some (YMap [(''JINA_WORKSPACE'', YStr ''ws'')])\<rparr>)
       (sample_world\<lparr>environ := [(''JINA_WORKSPACE'', ''ws'')]\<rparr>)
       [''flows'', ''index.yml''] [''ws''] \<and>
   run_indexing sample_externals ((sample_runner False)\<lparr>env_yaml := None\<rparr>) sample_world
       [''flows'', ''index.yml''] (Some [''pods'']) =
     index_workspace sample_externals ((sample_runner False)\<lparr>env_yaml := None\<rparr>) sample_world
       [''flows'', ''index.yml''] [''pods'']"
proof -
  have 1: "map_of (environ (sample_world\<lparr>environ := [(''JINA_WORKSPACE'', ''elsewhere'')]\<rparr>))
             (workspace_env (sample_runner False)) \<noteq> None"
    by (simp add: sample_runner_def FlowRunner_init_def)
  have 2: "load_env sample_externals (sample_runner False) sample_world =
      Inr ((sample_runner False)\<lparr>env_parameters := Some (YMap [(''JINA_WORKSPACE'', YStr ''ws'')])\<rparr>,
           sample_world\<lparr>environ := [(''JINA_WORKSPACE'', ''ws'')]\<rparr>)"
    using sample_load_env [of False "[]"] by (simp add: putenv_def sample_world_def)
  have 3: "load_env sample_externals ((sample_runner False)\<lparr>env_yaml := None\<rparr>) sample_world =
      Inr ((sample_runner False)\<lparr>env_yaml := None\<rparr>, sample_world)"
    by (simp add: load_env_def py_truthy_def)
  from workspace_from_environment [of
      "sample_world\<lparr>environ := [(''JINA_WORKSPACE'', ''elsewhere'')]\<rparr>" "sample_runner False"
      sample_externals "[''flows'', ''index.yml'']" "Some [''pods'']" None] 1
  have a: "run_indexing sample_externals (sample_runner False)
       (sample_world\<lparr>environ := [(''JINA_WORKSPACE'', ''elsewhere'')]\<rparr>)
       [''flows'', ''index.yml''] (Some [''pods'']) =
   run_indexing sample_externals (sample_runner False)
       (sample_world\<lparr>environ := [(''JINA_WORKSPACE'', ''elsewhere'')]\<rparr>)
       [''flows'', ''index.yml''] None" by blast
  from workspace_from_environment [of sample_world "sample_runner False" sample_externals
      "[''flows'', ''index.yml'']" "Some [''pods'']" None] 2
  have b: "run_indexing sample_externals (sample_runner False) sample_world
       [''flows'', ''index.yml''] (Some [''pods'']) =
     index_workspace sample_externals
       ((sample_runner False)\<lparr>env_parameters := Some (YMap [(''JINA_WORKSPACE'', YStr ''ws'')])\<rparr>)
       (sample_world\<lparr>environ := [(''JINA_WORKSPACE'', ''ws'')]\<rparr>)
       [''flows'', ''index.yml''] [''ws'']"
    by (simp add: sample_runner_def FlowRunner_init_def Path_def)
  from workspace_from_environment [of sample_world "(sample_runner False)\<lparr>env_yaml := None\<rparr>"
      sample_externals "[''flows'', ''index.yml'']" "Some [''pods'']" None] 3
  have c: "run_indexing sample_externals ((sample_runner False)\<lparr>env_yaml := None\<rparr>) sample_world
       [''flows'', ''index.yml''] (Some [''pods'']) =
     index_workspace sample_externals ((sample_runner False)\<lparr>env_yaml := None\<rparr>) sample_world
       [''flows'', ''index.yml''] [''pods'']"
    by (simp add: sample_runner_def FlowRunner_init_def sample_world_def)
  from a b c show ?thesis by blast
qed



text \<open>
  C3. The claim as stated fails: \<^verbatim>\<open>run_indexing\<close> calls \<^verbatim>\<open>_load_env\<close> before it looks at
  the workspace, so on a runner with an \<^verbatim>\<open>env_yaml\<close> the call that skips indexing has set
  \<^verbatim>\<open>env_parameters\<close> and written the variables of the file into \<^verbatim>\<open>os.environ\<close>.
\<close>

theorem skip_indexing_counterexample:
  "overwrite_workspace (sample_runner False) = False \<and>
   path_exists (fs sample_world) [''ws''] \<and>
   run_indexing sample_externals (sample_runner False) sample_world [''flows'', ''index.yml''] None =
     Inr ((sample_runner False)\<lparr>env_parameters := Some (YMap [(''JINA_WORKSPACE'', YStr ''ws'')])\<rparr>,
          sample_world\<lparr>environ := [(''JINA_WORKSPACE'', ''ws'')]\<rparr>) \<and>
   run_indexing sample_externals (sample_runner False) sample_world [''flows'', ''index.yml''] None \<noteq>
     Inr (sample_runner False, sample_world)"
proof -
  have l: "load_env sample_externals (sample_runner False) sample_world =
      Inr ((sample_runner False)\<lparr>env_parameters := Some (YMap [(''JINA_WORKSPACE'', YStr ''ws'')])\<rparr>,
           sample_world\<lparr>environ := [(''JINA_WORKSPACE'', ''ws'')]\<rparr>)"
    using sample_load_env [of False "[]"] by (simp add: putenv_def sample_world_def)
  have e: "path_exists (fs sample_world) [''ws'']"
    by (simp add: sample_world_def sample_fs_def path_exists_def node_at_def)
  show ?thesis
    using e
    by (simp add: run_indexing_def l workspace_path_def index_workspace_def)
       (simp add: sample_runner_def FlowRunner_init_def Path_def sample_world_def)
qed

text \<open>
  C3, as amended. When \<^verbatim>\<open>overwrite_workspace\<close> is false and the resolved workspace exists,
  \<^verbatim>\<open>run_indexing\<close> skips indexing and returns: no flow is started, and the file system,
  the documents and every attribute of the runner but \<^verbatim>\<open>env_parameters\<close> are unchanged.
  The only changes are those of \<^verbatim>\<open>_load_env\<close>, the attribute \<^verbatim>\<open>env_parameters\<close> and the
  variables in \<^verbatim>\<open>os.environ\<close>; with no \<^verbatim>\<open>env_yaml\<close> the call leaves all state unchanged.
\<close>

theorem skip_indexing_frame:
  assumes "load_env ext self w = Inr (self1, w1)"
    and "workspace_path self1 w1 workspace = Inr ws"
    and "path_exists (fs w1) ws"
    and "\<not> overwrite_workspace self"
  shows "run_indexing ext self w y workspace = Inr (self1, w1) \<and>
         flow_calls w1 = flow_calls w \<and> fs w1 = fs w \<and>
         w1\<lparr>environ := environ w\<rparr> = w \<and>
         self1\<lparr>env_parameters := env_parameters self\<rparr> = self \<and>
         (\<not> py_truthy (env_yaml self) \<longrightarrow> self1 = self \<and> w1 = w)"
proof -
  have ow: "\<not> overwrite_workspace self1"
    using load_env_fields(4) [OF assms(1)] assms(4) by simp
  have r: "run_indexing ext self w y workspace = Inr (self1, w1)"
    using assms(1,2,3) ow by (simp add: run_indexing_def index_workspace_def)
  have n: "\<not> py_truthy (env_yaml self) \<longrightarrow> self1 = self \<and> w1 = w"
    using assms(1) by (auto simp: load_env_def)
  from r n load_env_fields(1,2) [OF assms(1)] load_env_frame [OF assms(1)]
  show ?thesis by blast
qed

theorem skip_indexing_frame_witness:
  "run_indexing sample_externals ((sample_runner False)\<lparr>env_yaml := None\<rparr>) sample_world
      [''flows'', ''index.yml''] (Some [''ws'']) =
     Inr ((sample_runner False)\<lparr>env_yaml := None\<rparr>, sample_world)"
proof -
  have 1: "load_env sample_externals ((sample_runner False)\<lparr>env_yaml := None\<rparr>) sample_world =
      Inr ((sample_runner False)\<lparr>env_yaml := None\<rparr>, sample_world)"
    by (simp add: load_env_def py_truthy_def)
  have 2: "workspace_path ((sample_runner False)\<lparr>env_yaml := None\<rparr>) sample_world (Some [''ws''])
      = Inr [''ws'']"
    by (simp add: workspace_path_def sample_world_def)
  have 3: "path_exists (fs sample_world) [''ws'']"
    by (simp add: sample_world_def sample_fs_def path_exists_def node_at_def)
  have 4: "\<not> overwrite_workspace ((sample_runner False)\<lparr>env_yaml := None\<rparr>)"
    by (simp add: sample_runner_def FlowRunner_init_def)
  from skip_indexing_frame [OF 1 2 3 4, of "[''flows'', ''index.yml'']"]
  show ?thesis by blast
qed




section \<open>Parameter substitution\<close>

lemma update_at_key:
  "k \<notin> fst ` set xs \<Longrightarrow> AList.update k v (xs @ (k, u) # ys) = xs @ (k, v) # ys"
  by (induction xs) auto

lemma update_as_map:
  "distinct (map fst xs) \<Longrightarrow> map_of xs k = Some u \<Longrightarrow>
   AList.update k v xs = map (\<lambda>(k', x). (k', if k' = k then v else x)) xs"
proof (induction xs)
  case Nil
  then show ?case by simp
next
  case (Cons a xs)
  obtain k' x where a: "a = (k', x)" by (cases a)
  show ?case
  proof (cases "k' = k")
    case True
    with Cons.prems a have "k \<notin> fst ` set xs" by auto
    then have "map (\<lambda>(k', x). (k', if k' = k then v else x)) xs = xs"
      by (induction xs) auto
    with True a show ?thesis by simp
  next
    case False
    with Cons a show ?thesis by simp
  qed
qed

lemma map_absent_key:
  "map_of xs k = None \<Longrightarrow> map (\<lambda>(k', x). (k', if k' = k then f x else x)) xs = xs"
  by (induction xs) (auto split: if_splits)

lemma keys_map_values: "map fst (map (\<lambda>(k, v). (k, g k v)) xs) = map fst xs"
  by (induction xs) auto

lemma wf_dict_map_values: "wf_dict (map (\<lambda>(k, v). (k, g k v)) xs) = wf_dict xs"
  unfolding wf_dict_def keys_map_values ..

lemma replace_items_general:
  "distinct (map fst (pre @ rest)) \<Longrightarrow>
   replace_items rp tp rest (map (\<lambda>(param, val). (param, substitute rp tp val)) pre @ rest) =
     map (\<lambda>(param, val). (param, substitute rp tp val)) (pre @ rest)"
proof (induction rest arbitrary: pre)
  case Nil
  then show ?case by simp
next
  case (Cons it rest)
  obtain param val where it: "it = (param, val)" by (cases it)
  let ?S = "\<lambda>(param, val). (param, substitute rp tp val)"
  have d: "distinct (map fst ((pre @ [it]) @ rest))" using Cons.prems by simp
  have nk: "param \<notin> fst ` set (map ?S pre)" using Cons.prems it by (auto simp: image_iff)
  have step: "map ?S (pre @ [it]) @ rest =
      (case map_of tp (lstrip ''$'' (py_str rp val)) of
         Some t \<Rightarrow> AList.update param t (map ?S pre @ it # rest)
       | None \<Rightarrow> map ?S pre @ it # rest)"
    using update_at_key [OF nk, of _ val rest]
    by (simp add: it substitute_def split: option.splits)
  have "replace_items rp tp (it # rest) (map ?S pre @ it # rest) =
        replace_items rp tp rest (map ?S (pre @ [it]) @ rest)"
    unfolding step by (simp add: it split: option.splits)
  also have "\<dots> = map ?S ((pre @ [it]) @ rest)" by (rule Cons.IH [OF d])
  finally show ?case by simp
qed

lemma replace_items_map:
  "wf_dict items \<Longrightarrow>
   replace_items rp tp items items = map (\<lambda>(param, val). (param, substitute rp tp val)) items"
  using replace_items_general [of "[]" items rp tp] by (simp add: wf_dict_def)

lemma replace_section_map:
  assumes "wf_dict entries"
    and "\<And>v. map_of entries section = Some v \<Longrightarrow> \<exists>items. v = YMap items \<and> wf_dict items"
  shows "replace_section rp tp section (YMap entries) =
           Inr (YMap (map (\<lambda>(k, v). (k, if k = section then substitute_section rp tp v else v))
                        entries))"
proof (cases "map_of entries section")
  case None
  then show ?thesis
    using map_absent_key [OF None, of "substitute_section rp tp"]
    by (simp add: replace_section_def)
next
  case (Some v)
  from assms(2) [OF Some] obtain items where v: "v = YMap items" and w: "wf_dict items" by blast
  have "AList.update section (YMap (replace_items rp tp items items)) entries =
        map (\<lambda>(k, x). (k, if k = section then YMap (replace_items rp tp items items) else x)) entries"
    using assms(1) Some by (intro update_as_map) (simp_all add: wf_dict_def)
  also have "\<dots> = map (\<lambda>(k, x). (k, if k = section then substitute_section rp tp x else x)) entries"
  proof (rule map_cong [OF refl])
    fix e assume e: "e \<in> set entries"
    obtain k x where kx: "e = (k, x)" by (cases e)
    have "k = section \<Longrightarrow> x = v"
      using e kx Some assms(1) by (simp add: wf_dict_def)
    then show "(case e of (k, x) \<Rightarrow> (k, if k = section then YMap (replace_items rp tp items items) else x)) =
               (case e of (k, x) \<Rightarrow> (k, if k = section then substitute_section rp tp x else x))"
      by (auto simp: kx v substitute_section_def replace_items_map [OF w])
  qed
  finally show ?thesis
    using Some v by (simp add: replace_section_def)
qed

lemma sections_okD:
  assumes "sections_ok (YMap entries)"
  shows "wf_dict entries"
    and "\<And>v s. s = ''with'' \<or> s = ''metas'' \<Longrightarrow> map_of entries s = Some v \<Longrightarrow>
           \<exists>items. v = YMap items \<and> wf_dict items"
proof -
  show "wf_dict entries" using assms by (simp add: sections_ok_def)
  fix v s assume s: "s = ''with'' \<or> s = ''metas''" and m: "map_of entries s = Some v"
  from m have mem: "(s, v) \<in> set entries" by (rule map_of_SomeD)
  from assms have "list_all (\<lambda>(k, v). k = ''with'' \<or> k = ''metas'' \<longrightarrow>
                      (case v of YMap items \<Rightarrow> wf_dict items | other \<Rightarrow> False)) entries"
    by (simp add: sections_ok_def)
  with mem have "s = ''with'' \<or> s = ''metas'' \<longrightarrow>
                   (case v of YMap items \<Rightarrow> wf_dict items | other \<Rightarrow> False)"
    unfolding list_all_iff by blast
  with s show "\<exists>items. v = YMap items \<and> wf_dict items"
    by (cases v) simp_all
qed

lemma map_of_map_values:
  "map_of (map (\<lambda>(k, v). (k, g k v)) xs) k = map_option (g k) (map_of xs k)"
  by (induction xs) auto

lemma replace_param_sections:
  assumes "sections_ok parameters"
  shows "replace_param rp parameters tp = Inr (substitute_sections rp tp parameters)"
proof -
  from assms obtain entries where p: "parameters = YMap entries"
    by (auto simp: sections_ok_def split: yaml.splits)
  note ok = sections_okD [OF assms [unfolded p]]
  let ?w = "map (\<lambda>(k, v). (k, if k = ''with'' then substitute_section rp tp v else v)) entries"
  have 1: "replace_section rp tp ''with'' (YMap entries) = Inr (YMap ?w)"
    using ok(2) [of "''with''"] by (intro replace_section_map [OF ok(1)]) simp
  have wfw: "wf_dict ?w"
    using ok(1) by (simp only: wf_dict_map_values)
  have mw: "\<And>v. map_of ?w ''metas'' = Some v \<Longrightarrow> \<exists>items. v = YMap items \<and> wf_dict items"
  proof -
    fix v assume "map_of ?w ''metas'' = Some v"
    then have "map_of entries ''metas'' = Some v"
      using map_of_map_values [of "\<lambda>k v. if k = ''with'' then substitute_section rp tp v else v"
                                 entries "''metas''"]
      by auto
    then show "\<exists>items. v = YMap items \<and> wf_dict items"
      using ok(2) [of "''metas''"] by simp
  qed
  have 2: "replace_section rp tp ''metas'' (YMap ?w) =
      Inr (YMap (map (\<lambda>(k, v). (k, if k = ''metas'' then substitute_section rp tp v else v)) ?w))"
    by (rule replace_section_map [OF wfw mw])
  have "map (\<lambda>(k, v). (k, if k = ''metas'' then substitute_section rp tp v else v)) ?w =
        map (\<lambda>(k, v). (k, if k = ''with'' \<or> k = ''metas''
                            then substitute_section rp tp v else v)) entries"
    by (induction entries) auto
  with 1 2 show ?thesis
    by (simp add: replace_param_def p substitute_sections_def)
qed

lemma replace_each_sections:
  "list_all sections_ok components \<Longrightarrow>
   replace_each rp tp components = Inr (map (substitute_sections rp tp) components)"
  by (induction components) (simp_all add: replace_param_sections)

lemma sections_ok_components:
  assumes "sections_ok parameters"
  shows "sections_ok (substitute_components rp tp parameters)"
proof -
  from assms obtain entries where p: "parameters = YMap entries"
    by (auto simp: sections_ok_def split: yaml.splits)
  let ?g = "\<lambda>k v. if k = ''components''
                   then (case v of
                           YSeq components \<Rightarrow> YSeq (map (substitute_sections rp tp) components)
                         | other \<Rightarrow> other)
                   else v"
  let ?P = "\<lambda>(k, v). k = ''with'' \<or> k = ''metas'' \<longrightarrow>
                      (case v of YMap items \<Rightarrow> wf_dict items | other \<Rightarrow> False)"
  have sc: "substitute_components rp tp parameters = YMap (map (\<lambda>(k, v). (k, ?g k v)) entries)"
    by (simp add: p substitute_components_def)
  have "list_all ?P entries"
    using assms by (simp add: p sections_ok_def)
  then have a: "list_all ?P (map (\<lambda>(k, v). (k, ?g k v)) entries)"
    by (induction entries) auto
  have "wf_dict entries" using assms by (simp add: p sections_ok_def)
  then have b: "wf_dict (map (\<lambda>(k, v). (k, ?g k v)) entries)"
    by (simp only: wf_dict_map_values)
  from a b show ?thesis
    unfolding sc sections_ok_def by simp
qed

lemma replace_components_file:
  assumes "pod_file_ok parameters"
  shows "replace_components rp tp parameters = Inr (substitute_components rp tp parameters)"
proof -
  from assms have so: "sections_ok parameters" by (simp add: pod_file_ok_def)
  then obtain entries where p: "parameters = YMap entries"
    by (auto simp: sections_ok_def split: yaml.splits)
  have wf: "wf_dict entries" using so p by (simp add: sections_ok_def)
  show ?thesis
  proof (cases "map_of entries ''components''")
    case None
    have "map (\<lambda>(k, v). (k, if k = ''components''
             then (case v of YSeq components \<Rightarrow> YSeq (map (substitute_sections rp tp) components)
                   | other \<Rightarrow> other) else v)) entries = entries"
      using map_absent_key [OF None] by simp
    with None show ?thesis
      by (simp add: replace_components_def p substitute_components_def)
  next
    case (Some v)
    with assms p obtain cs where v: "v = YSeq cs" and cs: "list_all sections_ok cs"
      by (auto simp: pod_file_ok_def split: yaml.splits)
    have "AList.update ''components'' (YSeq (map (substitute_sections rp tp) cs)) entries =
          map (\<lambda>(k, x). (k, if k = ''components''
                 then YSeq (map (substitute_sections rp tp) cs) else x)) entries"
      using wf Some by (intro update_as_map) (simp_all add: wf_dict_def)
    also have "\<dots> = map (\<lambda>(k, x). (k, if k = ''components''
             then (case x of YSeq components \<Rightarrow> YSeq (map (substitute_sections rp tp) components)
                   | other \<Rightarrow> other) else x)) entries"
    proof (rule map_cong [OF refl])
      fix e assume e: "e \<in> set entries"
      obtain k x where kx: "e = (k, x)" by (cases e)
      have "k = ''components'' \<Longrightarrow> x = v"
        using e kx Some wf by (simp add: wf_dict_def)
      then show "(case e of (k, x) \<Rightarrow> (k, if k = ''components''
                    then YSeq (map (substitute_sections rp tp) cs) else x)) =
                 (case e of (k, x) \<Rightarrow> (k, if k = ''components''
                    then (case x of YSeq components \<Rightarrow>
                            YSeq (map (substitute_sections rp tp) components)
                          | other \<Rightarrow> other) else x))"
        by (auto simp: kx v)
    qed
    finally show ?thesis
      using Some v cs
      by (simp add: replace_components_def p substitute_components_def replace_each_sections)
  qed
qed

text \<open>
  C2. The claim as stated fails: a placeholder outside the sections \<^verbatim>\<open>with\<close> and \<^verbatim>\<open>metas\<close>
  is not replaced, although its name is that of a sampled parameter.
\<close>

theorem substitution_counterexample:
  "pod_parameters (\<lambda>u. ''?'') [(''dim'', YInt 5)]
     (YMap [(''with'', YMap [(''dim'', YStr ''$dim'')]),
            (''requests'', YMap [(''dim'', YStr ''$dim'')])]) =
   Inr (YMap [(''with'', YMap [(''dim'', YInt 5)]),
              (''requests'', YMap [(''dim'', YStr ''$dim'')])])"
  by (simp add: pod_parameters_def replace_components_def replace_param_def replace_section_def
      lstrip_def)

text \<open>
  C2, as amended. For every sampled-parameter mapping and every document that is a
  mapping whose sections \<^verbatim>\<open>with\<close> and \<^verbatim>\<open>metas\<close>, where present, are mappings
  (\<open>sections_ok\<close>), \<^verbatim>\<open>_replace_param\<close> returns the document in which each direct entry
  of these two sections whose text \<^verbatim>\<open>str(val)\<close>, with all leading \<^verbatim>\<open>$\<close> stripped, is the
  name of a sampled parameter holds the value of that parameter, and every other entry,
  key and section is as it was. For every template file that is such a document and
  whose \<^verbatim>\<open>components\<close>, where present, is a list of such documents (\<open>pod_file_ok\<close>), the
  substitution of \<^verbatim>\<open>_create_trial_pods\<close> does this for each item of the list and for the
  document itself, and changes nothing else in the file.
\<close>

theorem substitution_in_sections:
  "(sections_ok component \<longrightarrow>
      replace_param rp component trial_parameters =
        Inr (substitute_sections rp trial_parameters component)) \<and>
   (pod_file_ok parameters \<longrightarrow>
      pod_parameters rp trial_parameters parameters =
        Inr (substitute_file rp trial_parameters parameters))"
proof (intro conjI impI)
  assume "sections_ok component"
  then show "replace_param rp component trial_parameters =
        Inr (substitute_sections rp trial_parameters component)"
    by (rule replace_param_sections)
next
  assume ok: "pod_file_ok parameters"
  then have "sections_ok parameters" by (simp add: pod_file_ok_def)
  then have "sections_ok (substitute_components rp trial_parameters parameters)"
    by (rule sections_ok_components)
  then show "pod_parameters rp trial_parameters parameters =
        Inr (substitute_file rp trial_parameters parameters)"
    by (simp add: pod_parameters_def replace_components_file [OF ok] replace_param_sections
        substitute_file_def)
qed

theorem substitution_in_sections_witness:
  "replace_param (\<lambda>u. ''?'')
     (YMap [(''metas'', YMap [(''workspace'', YStr ''$JINA_WORKSPACE''), (''name'', YStr ''enc'')])])
     [(''dim'', YInt 5), (''JINA_WORKSPACE'', YStr ''W'')] =
     Inr (YMap [(''metas'', YMap [(''workspace'', YStr ''W''), (''name'', YStr ''enc'')])]) \<and>
   pod_parameters (\<lambda>u. ''?'') [(''dim'', YInt 5), (''JINA_WORKSPACE'', YStr ''W'')]
     (YMap [(''with'', YMap [(''dim'', YStr ''$dim''), (''depth'', YInt 3)]),
            (''requests'', YMap [(''dim'', YStr ''$dim'')]),
            (''components'',
               YSeq [YMap [(''metas'', YMap [(''workspace'', YStr ''$JINA_WORKSPACE'')])],
                     YMap [(''with'', YMap [(''dim'', YStr ''$$dim'')])]])]) =
     Inr (YMap [(''with'', YMap [(''dim'', YInt 5), (''depth'', YInt 3)]),
                (''requests'', YMap [(''dim'', YStr ''$dim'')]),
                (''components'',
                   YSeq [YMap [(''metas'', YMap [(''workspace'', YStr ''W'')])],
                         YMap [(''with'', YMap [(''dim'', YInt 5)])]])])"
proof -
  let ?tp = "[(''dim'', YInt 5), (''JINA_WORKSPACE'', YStr ''W'')]"
  let ?c = "YMap [(''metas'', YMap [(''workspace'', YStr ''$JINA_WORKSPACE''), (''name'', YStr ''enc'')])]"
  let ?p = "YMap [(''with'', YMap [(''dim'', YStr ''$dim''), (''depth'', YInt 3)]),
            (''requests'', YMap [(''dim'', YStr ''$dim'')]),
            (''components'',
               YSeq [YMap [(''metas'', YMap [(''workspace'', YStr ''$JINA_WORKSPACE'')])],
                     YMap [(''with'', YMap [(''dim'', YStr ''$$dim'')])]])]"
  have 1: "sections_ok ?c" by (simp add: sections_ok_def wf_dict_def)
  have 2: "pod_file_ok ?p" by (simp add: pod_file_ok_def sections_ok_def wf_dict_def)
  from substitution_in_sections [of ?c "\<lambda>u. ''?''" ?tp ?p] 1 2
  have "replace_param (\<lambda>u. ''?'') ?c ?tp = Inr (substitute_sections (\<lambda>u. ''?'') ?tp ?c)"
    and "pod_parameters (\<lambda>u. ''?'') ?tp ?p = Inr (substitute_file (\<lambda>u. ''?'') ?tp ?p)"
    by blast+
  then show ?thesis
    by (simp add: substitute_file_def substitute_components_def substitute_sections_def
        substitute_section_def substitute_def lstrip_def str_int_def)
qed

text \<open>
  Outside these documents there is no substitution to speak of: a section that is not a
  mapping raises before any later section is looked at, and so does a component that is
  not a mapping; a mapping under \<^verbatim>\<open>components\<close> is changed in a way the model has no term
  for.
\<close>

lemma substitution_outside_sections:
  "replace_param (\<lambda>u. ''?'')
     (YMap [(''with'', YNull), (''metas'', YMap [(''dim'', YStr ''$dim'')])])
     [(''dim'', YInt 5)] = Inl AttributeError \<and>
   pod_parameters (\<lambda>u. ''?'') [(''dim'', YInt 5)]
     (YMap [(''components'', YSeq [YInt 1]), (''with'', YMap [(''dim'', YStr ''$dim'')])]) =
     Inl TypeError \<and>
   pod_parameters (\<lambda>u. ''?'') [(''dim'', YInt 5)]
     (YMap [(''components'', YMap [(''encoder'', YNull)])]) = Inl Unmodelled"
  by code_simp

section \<open>The best configuration\<close>

lemma map_of_dict_merge:
  "wf_dict b \<Longrightarrow> map_of (dict_merge a b) = map_of a ++ map_of b"
proof (induction b arbitrary: a)
  case Nil
  then show ?case by (simp add: dict_merge_def)
next
  case (Cons kv b)
  obtain k v where kv: "kv = (k, v)" by (cases kv)
  from Cons.prems have w: "wf_dict b" and nk: "k \<notin> dom (map_of b)"
    by (auto simp: wf_dict_def kv dom_map_of_conv_image_fst)
  have "dict_merge a (kv # b) = dict_merge (AList.update k v a) b"
    by (simp add: dict_merge_def kv)
  then have "map_of (dict_merge a (kv # b)) = map_of (AList.update k v a) ++ map_of b"
    by (simp only: Cons.IH [OF w])
  also have "\<dots> = (map_of a)(k \<mapsto> v) ++ map_of b"
    by (simp only: update_conv')
  also have "\<dots> = map_of a ++ map_of (kv # b)"
    using nk by (simp add: kv map_add_upd_left)
  finally show ?case .
qed

lemma mkdir_exist_ok_result:
  assumes "mkdir_exist_ok f p = Inr g"
  shows "node_at g p = Some Dir" and "\<And>q. q \<noteq> p \<Longrightarrow> node_at g q = node_at f q"
  using assms
  by (auto simp: mkdir_exist_ok_def node_at_def update_conv'
      split: option.splits node.splits if_splits)

lemma open_w_ok:
  assumes "node_at f (path_parent p) = Some Dir" and "node_at f p \<noteq> Some Dir"
  shows "open_w f p = Inr (AList.update p (File []) f)"
  using assms by (auto simp: open_w_def split: option.splits node.splits)

text \<open>
  What \<^verbatim>\<open>_export_params\<close> writes when the runner has the attribute \<^verbatim>\<open>env_parameters\<close>, a
  mapping, and the study has a best trial: when the directory of the file can be created,
  its path is not a directory and the printer accepts the value, the file holds the YAML
  text of one mapping, and that mapping is the merge of the environment parameters and
  the parameters of the best trial, the trial's value standing for a key that both have.
  Nothing else changes but the directory of the file.
\<close>

theorem best_config_is_merge:
  assumes "env_parameters (flow_runner self) = Some (YMap env)"
    and "best_trial st = Inr params" and "wf_dict params"
    and "mkdir_exist_ok (fs w) (path_parent (best_config_filepath self)) = Inr f"
    and "node_at (fs w) (best_config_filepath self) \<noteq> Some Dir"
    and "yaml_dump ext (YMap (dict_merge env params)) = Inr text"
  shows "\<exists>w'. export_params ext self w st = Inr w' \<and>
           node_at (fs w') (best_config_filepath self) = Some (File text) \<and>
           map_of (dict_merge env params) = map_of env ++ map_of params \<and>
           (\<forall>q. q \<noteq> best_config_filepath self \<and> q \<noteq> path_parent (best_config_filepath self) \<longrightarrow>
                node_at (fs w') q = node_at (fs w) q) \<and>
           environ w' = environ w \<and> flow_calls w' = flow_calls w"
proof -
  let ?p = "best_config_filepath self"
  let ?g = "AList.update ?p (File text) (AList.update ?p (File []) f)"
  have np: "?p \<noteq> []" "?p \<noteq> [''/'']" using assms(5) by (auto simp: node_at_def)
  then have pp: "path_parent ?p \<noteq> ?p"
    by (cases ?p rule: rev_cases) (auto simp: path_parent_def)
  have d: "node_at f (path_parent ?p) = Some Dir"
    by (rule mkdir_exist_ok_result(1) [OF assms(4)])
  have "node_at f ?p = node_at (fs w) ?p"
    using pp by (intro mkdir_exist_ok_result(2) [OF assms(4)]) simp
  with assms(5) have nd: "node_at f ?p \<noteq> Some Dir" by simp
  have o: "open_w f ?p = Inr (AList.update ?p (File []) f)" by (rule open_w_ok [OF d nd])
  have e: "export_params ext self w st = Inr (w\<lparr>fs := ?g\<rparr>)"
    using assms(1,2,4,6) o by (simp add: export_params_def dump_yaml_def)
  have 1: "node_at ?g ?p = Some (File text)"
    using np by (simp add: node_at_def update_conv')
  have 2: "\<forall>q. q \<noteq> ?p \<and> q \<noteq> path_parent ?p \<longrightarrow> node_at ?g q = node_at (fs w) q"
  proof (intro allI impI)
    fix q assume q: "q \<noteq> ?p \<and> q \<noteq> path_parent ?p"
    then have "node_at ?g q = node_at f q" by (simp add: node_at_def update_conv')
    also have "\<dots> = node_at (fs w) q"
      using q by (intro mkdir_exist_ok_result(2) [OF assms(4)]) simp
    finally show "node_at ?g q = node_at (fs w) q" .
  qed
  from e 1 2 map_of_dict_merge [OF assms(3), of env] show ?thesis by simp
qed

theorem best_config_is_merge_witness:
  "\<exists>w'. export_params sample_externals
            (sample_optimizer\<lparr>flow_runner :=
               (sample_runner True)\<lparr>env_parameters :=
                  Some (YMap [(''JINA_WORKSPACE'', YStr ''ws''), (''dim'', YInt 0)])\<rparr>\<rparr>)
            sample_world \<lparr>best_trial = Inr [(''dim'', YInt 2)], trials = [0, 1]\<rparr> = Inr w' \<and>
         node_at (fs w') [''config'', ''best_config.yml''] =
           Some (File ''JINA_WORKSPACE: ws, dim: 2'')"
proof -
  let ?self = "sample_optimizer\<lparr>flow_runner :=
               (sample_runner True)\<lparr>env_parameters :=
                  Some (YMap [(''JINA_WORKSPACE'', YStr ''ws''), (''dim'', YInt 0)])\<rparr>\<rparr>"
  let ?st = "\<lparr>best_trial = Inr [(''dim'', YInt 2)], trials = [0, 1]\<rparr>"
  have p: "best_config_filepath ?self = [''config'', ''best_config.yml'']"
    by (simp add: sample_optimizer_def Optimizer_init_def Path_def)
  have 1: "env_parameters (flow_runner ?self) =
             Some (YMap [(''JINA_WORKSPACE'', YStr ''ws''), (''dim'', YInt 0)])" by simp
  have 2: "best_trial ?st = Inr [(''dim'', YInt 2)]" by simp
  have 3: "wf_dict [(''dim'', YInt 2)]" by (simp add: wf_dict_def)
  have 4: "mkdir_exist_ok (fs sample_world) (path_parent (best_config_filepath ?self)) =
             Inr (AList.update [''config''] Dir sample_fs)"
    unfolding p
    by (simp add: mkdir_exist_ok_def path_parent_def node_at_def sample_world_def sample_fs_def)
  have 5: "node_at (fs sample_world) (best_config_filepath ?self) \<noteq> Some Dir"
    unfolding p by (simp add: node_at_def sample_world_def sample_fs_def)
  have 6: "yaml_dump sample_externals
             (YMap (dict_merge [(''JINA_WORKSPACE'', YStr ''ws''), (''dim'', YInt 0)] [(''dim'', YInt 2)])) =
           Inr ''JINA_WORKSPACE: ws, dim: 2''"
    by (simp add: sample_externals_def sample_yaml_dump_def dict_merge_def str_int_def)
  from best_config_is_merge [OF 1 2 3 4 5 6] show ?thesis
    unfolding p by blast
qed

text \<open>
  The attribute \<^verbatim>\<open>env_parameters\<close> is set by \<^verbatim>\<open>_load_env\<close> and nowhere else, and only when
  \<^verbatim>\<open>env_yaml\<close> is given. A runner without \<^verbatim>\<open>env_yaml\<close>, the default of its constructor,
  comes back from every trial as it was, so it never has the attribute, and
  \<^verbatim>\<open>optimize_flow\<close> cannot return: when all trials have succeeded, \<^verbatim>\<open>_export_params\<close>
  raises.
\<close>

lemma run_evaluation_runner:
  assumes "\<not> py_truthy (env_yaml r)"
    and "run_evaluation ext r w y qy ws cb c = Inr (r', w', c')"
  shows "r' = r"
  using assms
  by (auto simp: run_evaluation_def run_indexing_def run_querying_def index_workspace_def
        index_flow_def load_env_def split: sum.splits prod.splits if_splits)

lemma objective_runner:
  assumes "\<not> py_truthy (env_yaml (flow_runner opt))"
    and "objective ext opt w trial = Inr (mean_eval, opt', w')"
  shows "flow_runner opt' = flow_runner opt"
  using assms unfolding objective_def Let_def
  by (auto split: sum.splits prod.splits dest: run_evaluation_runner)

lemma run_trials_runner:
  assumes "\<not> py_truthy (env_yaml (flow_runner opt))"
    and "run_trials ext lib d s n opt w vals = Inr (vals', opt', w')"
  shows "flow_runner opt' = flow_runner opt"
  using assms
proof (induction n arbitrary: opt w vals)
  case 0
  then show ?case by simp
next
  case (Suc n)
  from Suc.prems(2) obtain mean_eval opt1 w1 where
    o: "objective ext opt w (ask lib d s vals) = Inr (mean_eval, opt1, w1)"
    and r: "run_trials ext lib d s n opt1 w1 (vals @ [mean_eval]) = Inr (vals', opt', w')"
    by (auto split: sum.splits prod.splits)
  from objective_runner [OF Suc.prems(1) o] have f: "flow_runner opt1 = flow_runner opt" .
  with Suc.prems(1) have "\<not> py_truthy (env_yaml (flow_runner opt1))" by simp
  from Suc.IH [OF this r] f show ?case by simp
qed

lemma optimize_flow_without_env_yaml:
  assumes "\<not> py_truthy (env_yaml (flow_runner opt))"
    and "env_parameters (flow_runner opt) = None"
  shows "\<exists>e. optimize_flow ext lib opt w n d s = Inl e"
proof (cases "run_trials ext lib d s n opt w []")
  case (Inl e)
  then show ?thesis by (simp add: optimize_flow_def)
next
  case (Inr res)
  obtain vals opt' w' where res: "res = (vals, opt', w')" by (cases res)
  from run_trials_runner [OF assms(1) Inr [unfolded res]] assms(2)
  have "env_parameters (flow_runner opt') = None" by simp
  then have "\<exists>e. export_params ext opt' w'
                 \<lparr>best_trial = best_params lib d s vals, trials = vals\<rparr> = Inl e"
    by (simp add: export_params_def split: sum.splits)
  then show ?thesis using Inr by (auto simp: optimize_flow_def res)
qed

text \<open>
  C5. A study of two trials on the sample inputs with a runner constructed without
  \<^verbatim>\<open>env_yaml\<close>, the variable \<^verbatim>\<open>JINA_WORKSPACE\<close> being set in the environment of the
  process. Both trials succeed, with the values 1 and 1/2, and the study has a best trial
  with the parameters \<^verbatim>\<open>{dim: 1}\<close>; the runner has no \<^verbatim>\<open>env_parameters\<close>,
  \<^verbatim>\<open>_export_params\<close> raises \<^verbatim>\<open>AttributeError\<close>, and so does \<^verbatim>\<open>optimize_flow\<close>: no best
  configuration is written. With the runner that loads \<^verbatim>\<open>env.yml\<close>, the same study ends
  with \<^verbatim>\<open>env_parameters\<close> loaded from that file and the best-configuration file holding
  the merge of its entry and the parameters of the best trial.
\<close>

theorem export_without_env_yaml:
  "(case run_trials sample_externals sample_optuna ''maximize'' 42 2
           (sample_optimizer\<lparr>flow_runner :=
              FlowRunner_init [''a'', ''b''] [''q''] 2 1 None ''JINA_WORKSPACE'' True\<rparr>)
           (sample_world\<lparr>environ := [(''JINA_WORKSPACE'', ''ws'')]\<rparr>) [] of
      Inl e \<Rightarrow> None
    | Inr (vals, opt, w) \<Rightarrow>
        Some (vals, env_yaml (flow_runner opt), env_parameters (flow_runner opt),
              best_params sample_optuna ''maximize'' 42 vals,
              export_params sample_externals opt w
                \<lparr>best_trial = best_params sample_optuna ''maximize'' 42 vals, trials = vals\<rparr>)) =
     Some ([1, 1 / 2], None, None, Inr [(''dim'', YInt 1)], Inl AttributeError) \<and>
   optimize_flow sample_externals sample_optuna
     (sample_optimizer\<lparr>flow_runner :=
        FlowRunner_init [''a'', ''b''] [''q''] 2 1 None ''JINA_WORKSPACE'' True\<rparr>)
     (sample_world\<lparr>environ := [(''JINA_WORKSPACE'', ''ws'')]\<rparr>) 2 ''maximize'' 42 =
     Inl AttributeError \<and>
   (case optimize_flow sample_externals sample_optuna sample_optimizer sample_world 2 ''maximize'' 42 of
      Inl e \<Rightarrow> None
    | Inr (opt, w) \<Rightarrow>
        Some (env_parameters (flow_runner opt), node_at (fs w) [''config'', ''best_config.yml''])) =
     Some (Some (YMap [(''JINA_WORKSPACE'', YStr ''ws'')]),
           Some (File ''JINA_WORKSPACE: ws, dim: 1''))"
  by code_simp

section \<open>Failures\<close>

text \<open>
  For each operation of the program, the exceptions it can fail with: an operation fails
  with \<open>e\<close> exactly when one of the calls it makes, reached after the calls before it have
  returned, fails with \<open>e\<close>, or when it reaches a raise of its own.
\<close>

lemma fails_at_simps [simp]:
  "fails_at e (Inl e') rest = (e' = e)"
  "fails_at e (Inr x) rest = rest x"
  by (simp_all add: fails_at_def)

lemma load_yaml_fails:
  "(load_yaml ext typ f p = Inl e) =
     fails_at e (read_file f p) (\<lambda>content. yaml_load ext typ content = Inl e)"
  by (simp add: load_yaml_def split: sum.splits)

lemma dump_yaml_fails:
  "(dump_yaml ext v f p = Inl e) =
     fails_at e (open_w f p) (\<lambda>g. fails_at e (yaml_dump ext v) (\<lambda>content. False))"
  by (simp add: dump_yaml_def split: sum.splits)

lemma set_environ_fails:
  "(set_environ rp ((k, v) # rest) env = Inl e) =
     fails_at e (putenv env k (py_str rp v)) (\<lambda>env'. set_environ rp rest env' = Inl e)"
  by (simp split: sum.splits)

lemma load_env_fails:
  "(load_env ext self w = Inl e) =
     (py_truthy (env_yaml self) \<and>
      fails_at e (load_yaml ext ''safe'' (fs w) (Path (the (env_yaml self))))
        (\<lambda>params. fails_at e (py_items params)
           (\<lambda>items. fails_at e (set_environ (repr ext) items (environ w)) (\<lambda>env'. False))))"
  by (simp add: load_env_def split: sum.splits)

lemma clean_workdir_fails:
  "(clean_workdir f p = Inl e) = (path_exists f p \<and> rmtree f p = Inl e)"
  by (simp add: clean_workdir_def)

lemma index_flow_fails:
  "(index_flow ext self w y = Inl e) =
     fails_at e (flow_index ext y (index_document_generator self) (index_batch_size self) w)
       (\<lambda>w'. False)"
  by (simp add: index_flow_def split: sum.splits)

lemma index_workspace_fails:
  "(index_workspace ext self w y p = Inl e) =
     (if path_exists (fs w) p
      then overwrite_workspace self \<and>
           fails_at e (clean_workdir (fs w) p) (\<lambda>f. index_flow ext self (w\<lparr>fs := f\<rparr>) y = Inl e)
      else index_flow ext self w y = Inl e)"
  by (simp add: index_workspace_def split: sum.splits)

lemma run_indexing_fails:
  "(run_indexing ext self w y ws = Inl e) =
     fails_at e (load_env ext self w)
       (\<lambda>(self1, w1). fails_at e (workspace_path self1 w1 ws)
          (\<lambda>p. index_workspace ext self1 w1 y p = Inl e))"
  by (simp add: run_indexing_def split: sum.splits prod.splits)

lemma run_querying_fails:
  "(run_querying ext self w qy cb c = Inl e) =
     fails_at e (load_env ext self w)
       (\<lambda>(self1, w1).
          fails_at e (flow_search ext qy (query_document_generator self1) (query_batch_size self1) w1)
            (\<lambda>r. False))"
  by (simp add: run_querying_def split: sum.splits prod.splits)

lemma run_evaluation_fails:
  "(run_evaluation ext self w y qy ws cb c = Inl e) =
     fails_at e (load_env ext self w)
       (\<lambda>(self1, w1). fails_at e (run_indexing ext self1 w1 y ws)
          (\<lambda>(self2, w2). run_querying ext self2 w2 qy cb c = Inl e))"
  by (simp add: run_evaluation_def split: sum.splits prod.splits)

lemma truediv_fails: "(truediv a n = Inl e) = (n = 0 \<and> e = ZeroDivisionError)"
  by (auto simp: truediv_def)

lemma mean_items_fails:
  "(mean_items n ((metric, val) # rest) acc = Inl e) =
     fails_at e (truediv val n) (\<lambda>q. mean_items n rest (AList.update metric q acc) = Inl e)"
  by (simp split: sum.splits)

lemma get_mean_evaluation_fails:
  "(get_mean_evaluation cb = Inl e) =
     (if py_truthy (op_name cb)
      then (case map_of (evaluation_values cb) (the (op_name cb)) of
              None \<Rightarrow> e = KeyError (the (op_name cb))
            | Some v \<Rightarrow> truediv v (n_docs cb) = Inl e)
      else mean_items (n_docs cb) (evaluation_values cb) [] = Inl e)"
  by (auto simp: get_mean_evaluation_def split: sum.splits option.splits)

lemma first_mean_fails:
  "(first_mean m = Inl e) =
     (case m of Scalar x \<Rightarrow> e = TypeError
      | PerMetric [] \<Rightarrow> e = IndexError
      | PerMetric (x # xs) \<Rightarrow> False)"
  by (auto simp: first_mean_def split: mean_evaluation.splits list.splits)

lemma sample_parameters_fails:
  "(sample_parameters trial ((param, param_values) # rest) tp = Inl e) =
     fails_at e (py_getitem param_values ''type'')
       (\<lambda>t. case t of
               YStr ty \<Rightarrow>
                 fails_at e (py_items param_values)
                   (\<lambda>kwargs. fails_at e (trial (''suggest_'' @ ty) param (AList.delete ''type'' kwargs))
                      (\<lambda>v. sample_parameters trial rest (AList.update param v tp) = Inl e))
             | other \<Rightarrow> e = TypeError)"
  by (auto split: sum.splits yaml.splits)

lemma sample_parameters_append:
  "sample_parameters trial (xs @ ys) tp =
     (case sample_parameters trial xs tp of
        Inl e \<Rightarrow> Inl e
      | Inr tp' \<Rightarrow> sample_parameters trial ys tp')"
proof (induction xs arbitrary: tp)
  case Nil
  then show ?case by simp
next
  case (Cons x xs)
  obtain k v where x: "x = (k, v)" by (cases x)
  show ?case
    by (simp add: x Cons.IH split: sum.splits yaml.splits)
qed

lemma sample_parameters_later_fails:
  "(sample_parameters trial (xs @ ys) tp = Inl e) =
     fails_at e (sample_parameters trial xs tp) (\<lambda>tp'. sample_parameters trial ys tp' = Inl e)"
  by (simp add: sample_parameters_append split: sum.splits)

lemma trial_parameter_sampler_fails:
  "(trial_parameter_sampler ext opt w trial = Inl e) =
     fails_at e (load_yaml ext ''safe'' (fs w) (Path (parameter_yaml opt)))
       (\<lambda>parameters. fails_at e (py_items parameters)
          (\<lambda>items. fails_at e (sample_parameters trial items []) (\<lambda>tp. False)))"
  by (simp add: trial_parameter_sampler_def Let_def split: sum.splits)

lemma replace_section_fails:
  "(replace_section rp tp section parameters = Inl e) =
     fails_at e (py_contains parameters section)
       (\<lambda>present. present \<and>
          fails_at e (py_getitem parameters section)
            (\<lambda>sec. fails_at e (py_items sec) (\<lambda>items. False)))"
  by (cases parameters) (auto simp: replace_section_def split: sum.splits bool.splits option.splits)

lemma replace_param_fails:
  "(replace_param rp parameters tp = Inl e) =
     fails_at e (replace_section rp tp ''with'' parameters)
       (\<lambda>parameters'. fails_at e (replace_section rp tp ''metas'' parameters') (\<lambda>r. False))"
  by (simp add: replace_param_def split: sum.splits)

lemma replace_each_fails:
  "(replace_each rp tp (component # rest) = Inl e) =
     fails_at e (replace_param rp component tp)
       (\<lambda>component'. fails_at e (replace_each rp tp rest) (\<lambda>rest'. False))"
  by (simp split: sum.splits)

lemma replace_components_fails:
  "(replace_components rp tp parameters = Inl e) =
     fails_at e (py_contains parameters ''components'')
       (\<lambda>present. present \<and>
          fails_at e (py_getitem parameters ''components'')
            (\<lambda>components.
               case components of
                 YSeq items \<Rightarrow> fails_at e (replace_each rp tp items) (\<lambda>items'. False)
               | YMap [] \<Rightarrow> False
               | YMap ((k, v) # rest) \<Rightarrow>
                   fails_at e (replace_param rp (YStr k) tp)
                     (\<lambda>r. e = (if rest = [] then Unmodelled else RuntimeError))
               | YStr [] \<Rightarrow> False
               | YStr (ch # cs) \<Rightarrow>
                   fails_at e (replace_param rp (YStr [ch]) tp) (\<lambda>r. e = TypeError)
               | other \<Rightarrow> e = TypeError))"
  by (cases parameters)
     (auto simp: replace_components_def
           split: sum.splits bool.splits option.splits yaml.splits list.splits prod.splits)

lemma pod_parameters_fails:
  "(pod_parameters rp tp parameters = Inl e) =
     fails_at e (replace_components rp tp parameters)
       (\<lambda>parameters'. replace_param rp parameters' tp = Inl e)"
  by (simp add: pod_parameters_def split: sum.splits)

lemma create_pod_files_fails:
  "(create_pod_files ext tp trial_pod_dir (file_path # rest) f = Inl e) =
     fails_at e (load_yaml ext ''rt'' f file_path)
       (\<lambda>parameters. fails_at e (pod_parameters (repr ext) tp parameters)
          (\<lambda>parameters'.
             fails_at e (dump_yaml ext parameters' f
                           (joinpath trial_pod_dir (Path (path_name file_path))))
               (\<lambda>f'. create_pod_files ext tp trial_pod_dir rest f' = Inl e)))"
  by (simp split: sum.splits)

lemma create_trial_pods_fails:
  "(create_trial_pods ext opt w trial_dir tp = Inl e) =
     fails_at e (copytree (fs w) (pod_dir opt) (joinpath trial_dir [''pods'']))
       (\<lambda>f. fails_at e (create_pod_files ext tp (joinpath trial_dir [''pods''])
                          (glob_yml f (pod_dir opt)) f) (\<lambda>f'. False))"
  by (simp add: create_trial_pods_def Let_def split: sum.splits)

lemma rewrite_uses_fails:
  "(rewrite_uses trial_dir pd ((pod_param, x) # rest) val = Inl e) =
     (if prefix ''uses'' pod_param
      then (case x of
              YStr s \<Rightarrow>
                rewrite_uses trial_dir pd rest
                  (AList.update pod_param
                     (YStr (path_str (joinpath (joinpath trial_dir pd) (Path (path_name (Path s))))))
                     val) = Inl e
            | other \<Rightarrow> e = TypeError)
      else rewrite_uses trial_dir pd rest val = Inl e)"
  by (auto split: yaml.splits)

lemma rewrite_pods_fails:
  "(rewrite_pods trial_dir pd ((pod, val) # rest) pods = Inl e) =
     fails_at e (py_items val)
       (\<lambda>items. fails_at e (rewrite_uses trial_dir pd items items)
          (\<lambda>val'. rewrite_pods trial_dir pd rest (AList.update pod (YMap val') pods) = Inl e))"
  by (simp split: sum.splits)

lemma flow_parameters_fails:
  "(flow_parameters trial_dir pd parameters = Inl e) =
     fails_at e (py_getitem parameters ''pods'')
       (\<lambda>pods. fails_at e (py_items pods)
          (\<lambda>items. fails_at e (rewrite_pods trial_dir pd items items) (\<lambda>pods'. False)))"
  by (cases parameters) (auto simp: flow_parameters_def split: sum.splits option.splits)

lemma create_flow_files_fails:
  "(create_flow_files ext trial_dir pd trial_flow_dir (file_path # rest) f = Inl e) =
     fails_at e (load_yaml ext ''rt'' f file_path)
       (\<lambda>parameters. fails_at e (flow_parameters trial_dir pd parameters)
          (\<lambda>parameters'.
             fails_at e (dump_yaml ext parameters' f
                           (joinpath trial_flow_dir (Path (path_name file_path))))
               (\<lambda>f'. create_flow_files ext trial_dir pd trial_flow_dir rest f' = Inl e)))"
  by (simp split: sum.splits)

lemma create_trial_flows_fails:
  "(create_trial_flows ext opt w trial_dir = Inl e) =
     fails_at e (mkdir_exist_ok (fs w) (joinpath trial_dir [''flows'']))
       (\<lambda>f. fails_at e (create_flow_files ext trial_dir (pod_dir opt) (joinpath trial_dir [''flows''])
                          [index_yaml opt, query_yaml opt] f) (\<lambda>f'. False))"
  by (simp add: create_trial_flows_def Let_def split: sum.splits)

lemma objective_fails:
  "(objective ext opt w trial = Inl e) =
     fails_at e (trial_parameter_sampler ext opt w trial)
       (\<lambda>(tp, tw).
          fails_at e (if overwrite_trial_workspace opt then clean_workdir (fs w) tw else Inr (fs w))
            (\<lambda>f. fails_at e (create_trial_pods ext opt (w\<lparr>fs := f\<rparr>) tw tp)
               (\<lambda>w1. fails_at e (create_trial_flows ext opt w1 tw)
                  (\<lambda>w2. fails_at e
                           (run_evaluation ext (flow_runner opt) w2
                              (joinpath (joinpath tw [''flows'']) (Path (path_name (index_yaml opt))))
                              (joinpath (joinpath tw [''flows'']) (Path (path_name (query_yaml opt))))
                              (Some (joinpath tw [''index''])) process_result (callback opt))
                           (\<lambda>(runner', w3, callback').
                              fails_at e (get_mean_evaluation callback')
                                (\<lambda>mean_values. fails_at e (first_mean mean_values)
                                   (\<lambda>mean_eval. False)))))))"
  unfolding objective_def Let_def
  by (simp split: sum.splits prod.splits)

lemma export_params_fails:
  "(export_params ext opt w st = Inl e) =
     fails_at e (mkdir_exist_ok (fs w) (path_parent (best_config_filepath opt)))
       (\<lambda>f. case env_parameters (flow_runner opt) of
               None \<Rightarrow> e = AttributeError
             | Some (YMap env) \<Rightarrow>
                 fails_at e (best_trial st)
                   (\<lambda>params. fails_at e (dump_yaml ext (YMap (dict_merge env params)) f
                                          (best_config_filepath opt)) (\<lambda>f'. False))
             | Some other \<Rightarrow> e = TypeError)"
  by (auto simp: export_params_def split: sum.splits option.splits yaml.splits)

lemma run_trials_fails:
  "(run_trials ext lib d s (Suc n) opt w vals = Inl e) =
     fails_at e (objective ext opt w (ask lib d s vals))
       (\<lambda>(mean_eval, opt', w'). run_trials ext lib d s n opt' w' (vals @ [mean_eval]) = Inl e)"
  by (simp split: sum.splits prod.splits)

lemma run_trials_add:
  "run_trials ext lib d s (k + n) opt w vals =
     (case run_trials ext lib d s k opt w vals of
        Inl e \<Rightarrow> Inl e
      | Inr (vals', opt', w') \<Rightarrow> run_trials ext lib d s n opt' w' vals')"
  by (induction k arbitrary: opt w vals) (simp_all split: sum.splits prod.splits)

lemma run_trials_later_fails:
  "(run_trials ext lib d s (k + Suc n) opt w vals = Inl e) =
     fails_at e (run_trials ext lib d s k opt w vals)
       (\<lambda>(vals', opt', w').
          fails_at e (objective ext opt' w' (ask lib d s vals'))
            (\<lambda>(mean_eval, opt'', w'').
               run_trials ext lib d s n opt'' w'' (vals' @ [mean_eval]) = Inl e))"
  by (simp only: run_trials_add) (simp split: sum.splits prod.splits)

lemma optimize_flow_fails:
  "(optimize_flow ext lib opt w n d s = Inl e) =
     fails_at e (run_trials ext lib d s n opt w [])
       (\<lambda>(vals, opt', w').
          fails_at e (export_params ext opt' w'
                        \<lparr>best_trial = best_params lib d s vals, trials = vals\<rparr>) (\<lambda>w''. False))"
  by (simp add: optimize_flow_def split: sum.splits prod.splits)


text \<open>
  C8. No operation of the program catches an exception, changes it, or returns a value in
  its place. For every operation, from \<^verbatim>\<open>optimize_flow\<close> down to the reading and writing
  of a YAML file, and every exception \<open>e\<close>: the operation fails with \<open>e\<close> if and only if
  one of the calls it makes, in the order of the source and each reached when those
  before it have returned, fails with \<open>e\<close>, or the operation itself raises \<open>e\<close> where the
  source has a raise of its own (a value of the wrong type, a missing key or attribute,
  an empty result). So a failure of a file read, of the YAML parser or printer, of the
  file system, of a trial method or the study of the search library, and of the indexing
  or search flow is the failure of the operation that made the call and of every
  operation above it, in the first trial and in any later one, for the first parameter
  and for any later one, and the exception is the same at every level.
\<close>

theorem failures_propagate:
  "(optimize_flow ext lib opt w n d s = Inl e) =
     fails_at e (run_trials ext lib d s n opt w [])
       (\<lambda>(vals, opt', w').
          fails_at e (export_params ext opt' w'
                        \<lparr>best_trial = best_params lib d s vals, trials = vals\<rparr>) (\<lambda>w''. False)) \<and>
   (run_trials ext lib d s (Suc n) opt w vals = Inl e) =
     fails_at e (objective ext opt w (ask lib d s vals))
       (\<lambda>(mean_eval, opt', w'). run_trials ext lib d s n opt' w' (vals @ [mean_eval]) = Inl e) \<and>
   (run_trials ext lib d s (k + Suc n) opt w vals = Inl e) =
     fails_at e (run_trials ext lib d s k opt w vals)
       (\<lambda>(vals', opt', w').
          fails_at e (objective ext opt' w' (ask lib d s vals'))
            (\<lambda>(mean_eval, opt'', w'').
               run_trials ext lib d s n opt'' w'' (vals' @ [mean_eval]) = Inl e)) \<and>
   (export_params ext opt w st = Inl e) =
     fails_at e (mkdir_exist_ok (fs w) (path_parent (best_config_filepath opt)))
       (\<lambda>f. case env_parameters (flow_runner opt) of
               None \<Rightarrow> e = AttributeError
             | Some (YMap env) \<Rightarrow>
                 fails_at e (best_trial st)
                   (\<lambda>params. fails_at e (dump_yaml ext (YMap (dict_merge env params)) f
                                          (best_config_filepath opt)) (\<lambda>f'. False))
             | Some other \<Rightarrow> e = TypeError) \<and>
   (objective ext opt w trial = Inl e) =
     fails_at e (trial_parameter_sampler ext opt w trial)
       (\<lambda>(tp, tw).
          fails_at e (if overwrite_trial_workspace opt then clean_workdir (fs w) tw else Inr (fs w))
            (\<lambda>f. fails_at e (create_trial_pods ext opt (w\<lparr>fs := f\<rparr>) tw tp)
               (\<lambda>w1. fails_at e (create_trial_flows ext opt w1 tw)
                  (\<lambda>w2. fails_at e
                           (run_evaluation ext (flow_runner opt) w2
                              (joinpath (joinpath tw [''flows'']) (Path (path_name (index_yaml opt))))
                              (joinpath (joinpath tw [''flows'']) (Path (path_name (query_yaml opt))))
                              (Some (joinpath tw [''index''])) process_result (callback opt))
                           (\<lambda>(runner', w3, callback').
                              fails_at e (get_mean_evaluation callback')
                                (\<lambda>mean_values. fails_at e (first_mean mean_values)
                                   (\<lambda>mean_eval. False))))))) \<and>
   (trial_parameter_sampler ext opt w trial = Inl e) =
     fails_at e (load_yaml ext ''safe'' (fs w) (Path (parameter_yaml opt)))
       (\<lambda>parameters. fails_at e (py_items parameters)
          (\<lambda>items. fails_at e (sample_parameters trial items []) (\<lambda>tp. False))) \<and>
   (sample_parameters trial ((param, param_values) # others) tp = Inl e) =
     fails_at e (py_getitem param_values ''type'')
       (\<lambda>t. case t of
               YStr ty \<Rightarrow>
                 fails_at e (py_items param_values)
                   (\<lambda>kwargs. fails_at e (trial (''suggest_'' @ ty) param (AList.delete ''type'' kwargs))
                      (\<lambda>v. sample_parameters trial others (AList.update param v tp) = Inl e))
             | other \<Rightarrow> e = TypeError) \<and>
   (sample_parameters trial (earlier @ later) tp = Inl e) =
     fails_at e (sample_parameters trial earlier tp)
       (\<lambda>tp'. sample_parameters trial later tp' = Inl e) \<and>
   (create_trial_pods ext opt w trial_dir tp = Inl e) =
     fails_at e (copytree (fs w) (pod_dir opt) (joinpath trial_dir [''pods'']))
       (\<lambda>f. fails_at e (create_pod_files ext tp (joinpath trial_dir [''pods''])
                          (glob_yml f (pod_dir opt)) f) (\<lambda>f'. False)) \<and>
   (create_pod_files ext tp trial_pod_dir (file_path # files) g = Inl e) =
     fails_at e (load_yaml ext ''rt'' g file_path)
       (\<lambda>parameters. fails_at e (pod_parameters (repr ext) tp parameters)
          (\<lambda>parameters'.
             fails_at e (dump_yaml ext parameters' g
                           (joinpath trial_pod_dir (Path (path_name file_path))))
               (\<lambda>g'. create_pod_files ext tp trial_pod_dir files g' = Inl e))) \<and>
   (pod_parameters rp tp document = Inl e) =
     fails_at e (replace_components rp tp document)
       (\<lambda>document'. replace_param rp document' tp = Inl e) \<and>
   (replace_components rp tp document = Inl e) =
     fails_at e (py_contains document ''components'')
       (\<lambda>present. present \<and>
          fails_at e (py_getitem document ''components'')
            (\<lambda>components.
               case components of
                 YSeq items \<Rightarrow> fails_at e (replace_each rp tp items) (\<lambda>items'. False)
               | YMap [] \<Rightarrow> False
               | YMap ((key, v) # remaining) \<Rightarrow>
                   fails_at e (replace_param rp (YStr key) tp)
                     (\<lambda>r. e = (if remaining = [] then Unmodelled else RuntimeError))
               | YStr [] \<Rightarrow> False
               | YStr (ch # cs) \<Rightarrow>
                   fails_at e (replace_param rp (YStr [ch]) tp) (\<lambda>r. e = TypeError)
               | other \<Rightarrow> e = TypeError)) \<and>
   (replace_each rp tp (component # components) = Inl e) =
     fails_at e (replace_param rp component tp)
       (\<lambda>component'. fails_at e (replace_each rp tp components) (\<lambda>components'. False)) \<and>
   (replace_param rp document tp = Inl e) =
     fails_at e (replace_section rp tp ''with'' document)
       (\<lambda>document'. fails_at e (replace_section rp tp ''metas'' document') (\<lambda>r. False)) \<and>
   (replace_section rp tp section document = Inl e) =
     fails_at e (py_contains document section)
       (\<lambda>present. present \<and>
          fails_at e (py_getitem document section)
            (\<lambda>sec. fails_at e (py_items sec) (\<lambda>items. False))) \<and>
   (create_trial_flows ext opt w trial_dir = Inl e) =
     fails_at e (mkdir_exist_ok (fs w) (joinpath trial_dir [''flows'']))
       (\<lambda>f. fails_at e (create_flow_files ext trial_dir (pod_dir opt) (joinpath trial_dir [''flows''])
                          [index_yaml opt, query_yaml opt] f) (\<lambda>f'. False)) \<and>
   (create_flow_files ext trial_dir pd trial_flow_dir (file_path # files) g = Inl e) =
     fails_at e (load_yaml ext ''rt'' g file_path)
       (\<lambda>parameters. fails_at e (flow_parameters trial_dir pd parameters)
          (\<lambda>parameters'.
             fails_at e (dump_yaml ext parameters' g
                           (joinpath trial_flow_dir (Path (path_name file_path))))
               (\<lambda>g'. create_flow_files ext trial_dir pd trial_flow_dir files g' = Inl e))) \<and>
   (flow_parameters trial_dir pd document = Inl e) =
     fails_at e (py_getitem document ''pods'')
       (\<lambda>pods. fails_at e (py_items pods)
          (\<lambda>items. fails_at e (rewrite_pods trial_dir pd items items) (\<lambda>pods'. False))) \<and>
   (rewrite_pods trial_dir pd ((pod, val) # others) pods = Inl e) =
     fails_at e (py_items val)
       (\<lambda>items. fails_at e (rewrite_uses trial_dir pd items items)
          (\<lambda>val'. rewrite_pods trial_dir pd others (AList.update pod (YMap val') pods) = Inl e)) \<and>
   (rewrite_uses trial_dir pd ((pod_param, x) # others) items = Inl e) =
     (if prefix ''uses'' pod_param
      then (case x of
              YStr u \<Rightarrow>
                rewrite_uses trial_dir pd others
                  (AList.update pod_param
                     (YStr (path_str (joinpath (joinpath trial_dir pd) (Path (path_name (Path u))))))
                     items) = Inl e
            | other \<Rightarrow> e = TypeError)
      else rewrite_uses trial_dir pd others items = Inl e) \<and>
   (run_evaluation ext self w y qy ws cb c = Inl e) =
     fails_at e (load_env ext self w)
       (\<lambda>(self1, w1). fails_at e (run_indexing ext self1 w1 y ws)
          (\<lambda>(self2, w2). run_querying ext self2 w2 qy cb c = Inl e)) \<and>
   (run_indexing ext self w y ws = Inl e) =
     fails_at e (load_env ext self w)
       (\<lambda>(self1, w1). fails_at e (workspace_path self1 w1 ws)
          (\<lambda>p. index_workspace ext self1 w1 y p = Inl e)) \<and>
   (index_workspace ext self w y p = Inl e) =
     (if path_exists (fs w) p
      then overwrite_workspace self \<and>
           fails_at e (clean_workdir (fs w) p) (\<lambda>f. index_flow ext self (w\<lparr>fs := f\<rparr>) y = Inl e)
      else index_flow ext self w y = Inl e) \<and>
   (clean_workdir g p = Inl e) = (path_exists g p \<and> rmtree g p = Inl e) \<and>
   (index_flow ext self w y = Inl e) =
     fails_at e (flow_index ext y (index_document_generator self) (index_batch_size self) w)
       (\<lambda>w'. False) \<and>
   (run_querying ext self w qy cb c = Inl e) =
     fails_at e (load_env ext self w)
       (\<lambda>(self1, w1).
          fails_at e (flow_search ext qy (query_document_generator self1) (query_batch_size self1) w1)
            (\<lambda>r. False)) \<and>
   (load_env ext self w = Inl e) =
     (py_truthy (env_yaml self) \<and>
      fails_at e (load_yaml ext ''safe'' (fs w) (Path (the (env_yaml self))))
        (\<lambda>params. fails_at e (py_items params)
           (\<lambda>items. fails_at e (set_environ (repr ext) items (environ w)) (\<lambda>env'. False)))) \<and>
   (set_environ rp ((name, v) # others) env = Inl e) =
     fails_at e (putenv env name (py_str rp v)) (\<lambda>env'. set_environ rp others env' = Inl e) \<and>
   (get_mean_evaluation cbk = Inl e) =
     (if py_truthy (op_name cbk)
      then (case map_of (evaluation_values cbk) (the (op_name cbk)) of
              None \<Rightarrow> e = KeyError (the (op_name cbk))
            | Some v \<Rightarrow> truediv v (n_docs cbk) = Inl e)
      else mean_items (n_docs cbk) (evaluation_values cbk) [] = Inl e) \<and>
   (mean_items m ((metric, a) # totals) acc = Inl e) =
     fails_at e (truediv a m) (\<lambda>q. mean_items m totals (AList.update metric q acc) = Inl e) \<and>
   (first_mean means = Inl e) =
     (case means of Scalar x \<Rightarrow> e = TypeError
      | PerMetric [] \<Rightarrow> e = IndexError
      | PerMetric (x # xs) \<Rightarrow> False) \<and>
   (load_yaml ext typ g p = Inl e) =
     fails_at e (read_file g p) (\<lambda>content. yaml_load ext typ content = Inl e) \<and>
   (dump_yaml ext v g p = Inl e) =
     fails_at e (open_w g p) (\<lambda>g'. fails_at e (yaml_dump ext v) (\<lambda>content. False))"
  by (intro conjI)
     (rule optimize_flow_fails run_trials_fails run_trials_later_fails export_params_fails
        objective_fails trial_parameter_sampler_fails sample_parameters_fails
        sample_parameters_later_fails create_trial_pods_fails create_pod_files_fails
        pod_parameters_fails replace_components_fails replace_each_fails replace_param_fails
        replace_section_fails create_trial_flows_fails create_flow_files_fails
        flow_parameters_fails rewrite_pods_fails rewrite_uses_fails run_evaluation_fails
        run_indexing_fails index_workspace_fails clean_workdir_fails index_flow_fails
        run_querying_fails load_env_fails set_environ_fails get_mean_evaluation_fails
        mean_items_fails first_mean_fails load_yaml_fails dump_yaml_fails)+

theorem failures_propagate_witness:
  "optimize_flow sample_externals sample_optuna (sample_optimizer\<lparr>parameter_yaml := ''missing.yml''\<rparr>)
     sample_world (Suc 0) ''maximize'' 42 = Inl (FileNotFoundError [''missing.yml'']) \<and>
   optimize_flow sample_externals sample_optuna
     (sample_optimizer\<lparr>flow_runner := (sample_runner True)\<lparr>env_yaml := Some ''bad.yml''\<rparr>\<rparr>)
     (sample_world\<lparr>fs := AList.update [''bad.yml''] (File ''JINA_WORKSPACE: [ws'') sample_fs\<rparr>)
     (Suc 0) ''maximize'' 42 = Inl (LibraryError ''YAMLError'') \<and>
   optimize_flow sample_externals sample_optuna
     (sample_optimizer\<lparr>flow_runner := (sample_runner True)\<lparr>env_yaml := None\<rparr>\<rparr>)
     sample_world (Suc 0) ''maximize'' 42 = Inl (LibraryError ''BadWorkspace'') \<and>
   optimize_flow
     (sample_externals\<lparr>flow_search := \<lambda>qy documents batch_size w.
        if qy = [''JINA_WORKSPACE_2'', ''flows'', ''query.yml'']
        then Inl (LibraryError ''SearchError'') else sample_flow_search qy documents batch_size w\<rparr>)
     sample_optuna sample_optimizer sample_world (Suc (Suc 0)) ''maximize'' 42 =
       Inl (LibraryError ''SearchError'') \<and>
   optimize_flow sample_externals
     (sample_optuna\<lparr>ask := \<lambda>direction seed vals m param kwargs. Inl (LibraryError ''TrialError'')\<rparr>)
     sample_optimizer sample_world (Suc 0) ''maximize'' 42 = Inl (LibraryError ''TrialError'') \<and>
   optimize_flow sample_externals sample_optuna
     (sample_optimizer\<lparr>best_config_filepath := [''pods'']\<rparr>)
     sample_world (Suc 0) ''maximize'' 42 = Inl (IsADirectoryError [''pods'']) \<and>
   optimize_flow sample_externals sample_optuna
     (sample_optimizer\<lparr>flow_runner := (sample_runner True)\<lparr>env_parameters := Some (YMap [])\<rparr>\<rparr>)
     sample_world 0 ''maximize'' 42 = Inl ValueError \<and>
   optimize_flow
     (sample_externals\<lparr>flow_search := \<lambda>qy documents batch_size w. Inr ([], w)\<rparr>)
     sample_optuna sample_optimizer sample_world (Suc 0) ''maximize'' 42 = Inl IndexError \<and>
   optimize_flow sample_externals sample_optuna sample_optimizer
     (sample_world\<lparr>fs := AList.update [''JINA_WORKSPACE_1''] (File []) sample_fs\<rparr>)
     (Suc 0) ''maximize'' 42 = Inl (NotADirectoryError [''JINA_WORKSPACE_1'']) \<and>
   optimize_flow sample_externals sample_optuna (sample_optimizer\<lparr>pod_dir := [''nopods'']\<rparr>)
     sample_world (Suc 0) ''maximize'' 42 = Inl (FileNotFoundError [''nopods'']) \<and>
   optimize_flow sample_externals sample_optuna
     (sample_optimizer\<lparr>index_yaml := [''flows'', ''none.yml'']\<rparr>)
     sample_world (Suc 0) ''maximize'' 42 = Inl (FileNotFoundError [''flows'', ''none.yml''])"
proof -
  note whole = failures_propagate [THEN conjunct1]
  note trial = failures_propagate [THEN conjunct2, THEN conjunct1]
  note later = failures_propagate [THEN conjunct2, THEN conjunct2, THEN conjunct1]
  note obj = failures_propagate [THEN conjunct2, THEN conjunct2, THEN conjunct2, THEN conjunct2,
      THEN conjunct1]
  note sampler = failures_propagate [THEN conjunct2, THEN conjunct2, THEN conjunct2,
      THEN conjunct2, THEN conjunct2, THEN conjunct1]
  text \<open>A missing parameter file, step by step from the read to \<^verbatim>\<open>optimize_flow\<close>.\<close>
  let ?o1 = "sample_optimizer\<lparr>parameter_yaml := ''missing.yml''\<rparr>"
  let ?e1 = "FileNotFoundError [''missing.yml'']"
  have "load_yaml sample_externals ''safe'' (fs sample_world) (Path (parameter_yaml ?o1)) = Inl ?e1"
    by code_simp
  then have "trial_parameter_sampler sample_externals ?o1 sample_world
               (ask sample_optuna ''maximize'' 42 []) = Inl ?e1"
    by (simp only: sampler fails_at_simps)
  then have "objective sample_externals ?o1 sample_world (ask sample_optuna ''maximize'' 42 []) =
               Inl ?e1"
    by (simp only: obj fails_at_simps)
  then have "run_trials sample_externals sample_optuna ''maximize'' 42 (Suc 0) ?o1 sample_world [] =
               Inl ?e1"
    by (simp only: trial fails_at_simps)
  then have a: "optimize_flow sample_externals sample_optuna ?o1 sample_world (Suc 0) ''maximize'' 42 =
               Inl ?e1"
    by (simp only: whole fails_at_simps)
  text \<open>An environment file that is not YAML.\<close>
  have b: "optimize_flow sample_externals sample_optuna
     (sample_optimizer\<lparr>flow_runner := (sample_runner True)\<lparr>env_yaml := Some ''bad.yml''\<rparr>\<rparr>)
     (sample_world\<lparr>fs := AList.update [''bad.yml''] (File ''JINA_WORKSPACE: [ws'') sample_fs\<rparr>)
     (Suc 0) ''maximize'' 42 = Inl (LibraryError ''YAMLError'')"
    by (subst whole) code_simp
  text \<open>An indexing flow that raises.\<close>
  have c: "optimize_flow sample_externals sample_optuna
     (sample_optimizer\<lparr>flow_runner := (sample_runner True)\<lparr>env_yaml := None\<rparr>\<rparr>)
     sample_world (Suc 0) ''maximize'' 42 = Inl (LibraryError ''BadWorkspace'')"
    by (subst whole) code_simp
  text \<open>A search flow that raises in the second trial.\<close>
  let ?x = "sample_externals\<lparr>flow_search := \<lambda>qy documents batch_size w.
        if qy = [''JINA_WORKSPACE_2'', ''flows'', ''query.yml'']
        then Inl (LibraryError ''SearchError'') else sample_flow_search qy documents batch_size w\<rparr>"
  have "run_trials ?x sample_optuna ''maximize'' 42 (Suc 0 + Suc 0) sample_optimizer sample_world [] =
          Inl (LibraryError ''SearchError'')"
    by (subst later) code_simp
  then have "run_trials ?x sample_optuna ''maximize'' 42 (Suc (Suc 0)) sample_optimizer sample_world [] =
          Inl (LibraryError ''SearchError'')"
    by (simp only: add_Suc add_0 add_Suc_right add_0_right)
  then have d: "optimize_flow ?x sample_optuna sample_optimizer sample_world (Suc (Suc 0))
                  ''maximize'' 42 = Inl (LibraryError ''SearchError'')"
    by (simp only: whole fails_at_simps)
  text \<open>A trial method of the search library that raises.\<close>
  have e: "optimize_flow sample_externals
     (sample_optuna\<lparr>ask := \<lambda>direction seed vals m param kwargs. Inl (LibraryError ''TrialError'')\<rparr>)
     sample_optimizer sample_world (Suc 0) ''maximize'' 42 = Inl (LibraryError ''TrialError'')"
    by (subst whole) code_simp
  text \<open>The best configuration cannot be written, or the study has no best trial.\<close>
  have f: "optimize_flow sample_externals sample_optuna
     (sample_optimizer\<lparr>best_config_filepath := [''pods'']\<rparr>)
     sample_world (Suc 0) ''maximize'' 42 = Inl (IsADirectoryError [''pods''])"
    by (subst whole) code_simp
  have g: "optimize_flow sample_externals sample_optuna
     (sample_optimizer\<lparr>flow_runner := (sample_runner True)\<lparr>env_parameters := Some (YMap [])\<rparr>\<rparr>)
     sample_world 0 ''maximize'' 42 = Inl ValueError"
    by (subst whole) code_simp
  text \<open>A search without responses: the means have no first key.\<close>
  have h: "optimize_flow
     (sample_externals\<lparr>flow_search := \<lambda>qy documents batch_size w. Inr ([], w)\<rparr>)
     sample_optuna sample_optimizer sample_world (Suc 0) ''maximize'' 42 = Inl IndexError"
    by (subst whole) code_simp
  text \<open>The trial workspace is a file, the pod directory or a flow file is missing.\<close>
  have i: "optimize_flow sample_externals sample_optuna sample_optimizer
     (sample_world\<lparr>fs := AList.update [''JINA_WORKSPACE_1''] (File []) sample_fs\<rparr>)
     (Suc 0) ''maximize'' 42 = Inl (NotADirectoryError [''JINA_WORKSPACE_1''])"
    by (subst whole) code_simp
  have j: "optimize_flow sample_externals sample_optuna (sample_optimizer\<lparr>pod_dir := [''nopods'']\<rparr>)
     sample_world (Suc 0) ''maximize'' 42 = Inl (FileNotFoundError [''nopods''])"
    by (subst whole) code_simp
  have k: "optimize_flow sample_externals sample_optuna
     (sample_optimizer\<lparr>index_yaml := [''flows'', ''none.yml'']\<rparr>)
     sample_world (Suc 0) ''maximize'' 42 = Inl (FileNotFoundError [''flows'', ''none.yml''])"
    by (subst whole) code_simp
  show ?thesis by (simp only: a b c d e f g h i j k simp_thms)
qed

section \<open>The callback across trials\<close>

lemma run_querying_callback:
  "run_querying ext self w qy cb c = Inr (self', w', c') \<Longrightarrow> \<exists>rs. c' = foldl cb c rs"
  by (auto simp: run_querying_def split: sum.splits prod.splits)

lemma run_evaluation_callback:
  "run_evaluation ext self w y qy ws cb c = Inr (self', w', c') \<Longrightarrow> \<exists>rs. c' = foldl cb c rs"
  by (auto simp: run_evaluation_def split: sum.splits prod.splits dest: run_querying_callback)

text \<open>
  The value \<^verbatim>\<open>_objective\<close> returns is a mean taken over the callback it was given, to
  which the responses of this trial have been added: the callback of the optimizer is the
  same object in every trial and is not reset.
\<close>

lemma objective_accumulates:
  assumes "objective ext opt w trial = Inr (mean_eval, opt', w')"
  shows "\<exists>rs opn rest. callback opt' = foldl process_result (callback opt) rs \<and>
           get_mean_evaluation (callback opt') = Inr (PerMetric ((opn, mean_eval) # rest))"
proof -
  from assms have "\<exists>runner' cb' means w2 y qy ws.
      run_evaluation ext (flow_runner opt) w2 y qy ws process_result (callback opt) =
        Inr (runner', w', cb') \<and>
      get_mean_evaluation cb' = Inr means \<and> first_mean means = Inr mean_eval \<and>
      opt' = opt\<lparr>flow_runner := runner', callback := cb'\<rparr>"
    unfolding objective_def Let_def
    by (simp split: sum.splits prod.splits) blast
  then obtain runner' cb' means where
    ev: "\<exists>w2 y qy ws. run_evaluation ext (flow_runner opt) w2 y qy ws process_result (callback opt) =
           Inr (runner', w', cb')"
    and g: "get_mean_evaluation cb' = Inr means"
    and f: "first_mean means = Inr mean_eval"
    and o: "opt' = opt\<lparr>flow_runner := runner', callback := cb'\<rparr>"
    by blast
  from ev obtain rs where rs: "cb' = foldl process_result (callback opt) rs"
    by (blast dest: run_evaluation_callback)
  from f obtain opn rest where "means = PerMetric ((opn, mean_eval) # rest)"
    by (auto simp: first_mean_def split: mean_evaluation.splits list.splits)
  with g rs o show ?thesis by auto
qed

text \<open>
  C1. The claim fails in the second trial of a study: the callback of the optimizer is
  not reset, so the mean is taken over the documents of all trials so far. In a study of
  two trials on the sample inputs, the responses recorded during the second trial hold
  \<open>N = 1\<close> document with one value for \<^verbatim>\<open>precision\<close>, and these values sum to \<open>S = 0\<close>, so
  \<open>S / N = 0\<close>; \<^verbatim>\<open>get_mean_evaluation\<close> returns 1/2 for \<^verbatim>\<open>precision\<close> in that trial, in
  the dictionary that it returns when \<^verbatim>\<open>op_name\<close> is not set, as the float that it
  returns when \<^verbatim>\<open>op_name\<close> is \<^verbatim>\<open>precision\<close>, and as the value of \<^verbatim>\<open>_objective\<close>.
\<close>

theorem mean_of_second_trial_includes_first:
  "(case run_trials sample_externals sample_optuna ''maximize'' 42 1 sample_optimizer sample_world [] of
      Inl e \<Rightarrow> None
    | Inr (vals, opt1, w1) \<Rightarrow>
        (case objective sample_externals opt1 w1 (ask sample_optuna ''maximize'' 42 vals) of
           Inl e \<Rightarrow> None
         | Inr (mean_eval, opt2, w2) \<Rightarrow>
             Some (callback opt2 =
                     foldl process_result (callback opt1) [Response [Doc [Evaluation ''precision'' 0]]],
                   mean_eval,
                   get_mean_evaluation (callback opt2),
                   get_mean_evaluation ((callback opt2)\<lparr>op_name := Some ''precision''\<rparr>)))) =
     Some (True, 1 / 2, Inr (PerMetric [(''precision'', 1 / 2)]), Inr (Scalar (1 / 2))) \<and>
   length (recorded_docs [Response [Doc [Evaluation ''precision'' 0]]]) = 1 \<and>
   list_all (\<lambda>d. length (metric_values ''precision'' d) = 1)
     (recorded_docs [Response [Doc [Evaluation ''precision'' 0]]]) \<and>
   metric_total ''precision'' [Response [Doc [Evaluation ''precision'' 0]]] /
     real (length (recorded_docs [Response [Doc [Evaluation ''precision'' 0]]])) = 0"
  by code_simp

text \<open>
  C4. A study of two trials on the sample inputs. The search of the first trial answers
  with one document of precision 1 and that of the second trial with one document of
  precision 0, whose mean on a fresh callback is 0; the values \<^verbatim>\<open>_objective\<close> returns are
  1 and then 1/2, the mean over the documents of both trials.
\<close>

theorem objective_mean_spans_trials:
  "(case run_trials sample_externals sample_optuna ''maximize'' 42 2 sample_optimizer sample_world [] of
      Inl e \<Rightarrow> None
    | Inr (vals, opt, w) \<Rightarrow> Some (vals, n_docs (callback opt), map_of (evaluation_values (callback opt)) ''precision'')) =
     Some ([1, 1 / 2], 2, Some 1) \<and>
   flow_search sample_externals [''JINA_WORKSPACE_2'', ''flows'', ''query.yml''] [''q''] 1 sample_world =
     Inr ([Response [Doc [Evaluation ''precision'' 0]]], sample_world) \<and>
   get_mean_evaluation (foldl process_result (OptimizerCallback_init None)
       [Response [Doc [Evaluation ''precision'' 0]]]) = Inr (PerMetric [(''precision'', 0)])"
  by code_simp

end
